theory Spec2Isabelle
  imports Main
begin

section \<open>Data model of \<open>main.py\<close>\<close>

text \<open>
  The runtime registry is the module-level dictionary \<open>processes\<close>: it maps a script name
  to a dictionary with the keys \<open>process\<close>, \<open>thread\<close>, \<open>status\<close>, \<open>start_time\<close>,
  \<open>output\<close>, \<open>returncode\<close>, \<open>policy\<close>, \<open>should_stop\<close> and \<open>subscribers\<close>. Every key may
  be missing (the code creates \<open>{}\<close> entries and reads with \<open>.get\<close>), so every field is an
  option and \<open>None\<close> means that the key is absent.

  The key \<open>output\<close> is the field \<open>output_buf\<close>, since \<open>output\<close> is a keyword of Isabelle.

  Process handles, thread objects and queue objects are identified by natural numbers.
  A timestamp of \<open>time.time()\<close> is an integer number of time units. A character of a
  Python string is a \<open>char\<close>. The set of subscriber queues is kept as a list without
  duplicates, in the order a \<open>for\<close> loop over the set would visit it; that every list
  the service can reach has no duplicates is \<open>reachable_distinct_subscribers\<close> below.
\<close>

type_synonym name = string

datatype exn = KeyError string | OSError string | UnicodeDecodeError | AttributeError string | Full

record pinfo =
  process :: "nat option"
  thread :: "nat option"
  status :: "string option"
  start_time :: "int option"
  output_buf :: "string option"
  returncode :: "int option"
  policy :: "string option"
  should_stop :: "bool option"
  subscribers :: "nat list option"

text \<open>The empty dictionary \<open>{}\<close>.\<close>

definition empty_info :: pinfo where
  "empty_info = \<lparr>process = None, thread = None, status = None, start_time = None,
     output_buf = None, returncode = None, policy = None, should_stop = None,
     subscribers = None\<rparr>"

text \<open>An entry of \<open>scripts.json\<close>, as \<open>load_scripts\<close> returns it: \<open>path\<close>, \<open>args\<close>, \<open>policy\<close>.\<close>

record script_meta =
  path :: "string option"
  args :: "string list option"
  cfg_policy :: "string option"

type_synonym scripts = "(name \<times> script_meta) list"

text \<open>\<open>queue.Queue(maxsize)\<close>: a size bound and the items, oldest first.\<close>

record queue =
  maxsize :: int
  items :: "string list"

text \<open>What the program does to the outside world, in the order it does it.\<close>

datatype effect =
    Popen "string list" nat
  | Sleep nat
  | Terminate nat
  | Kill nat
  | SendText nat string

section \<open>Python primitives\<close>

text \<open>The slice \<open>s[-n:]\<close> for \<open>n > 0\<close>: the last \<open>n\<close> characters, all of \<open>s\<close> when it is shorter.\<close>

definition last_chars :: "nat \<Rightarrow> 'a list \<Rightarrow> 'a list" where
  "last_chars n s = drop (length s - n) s"

text \<open>
  \<open>Queue.put_nowait\<close>: raises \<open>queue.Full\<close> when \<open>maxsize > 0\<close> and the queue already holds
  \<open>maxsize\<close> items, appends the item otherwise.
\<close>

definition put_nowait :: "string \<Rightarrow> queue \<Rightarrow> exn + queue" where
  "put_nowait x q =
     (if 0 < maxsize q \<and> maxsize q \<le> int (length (items q)) then Inl Full
      else Inr (q\<lparr>items := items q @ [x]\<rparr>))"

text \<open>\<open>d.get(key, default)\<close> on an optional field.\<close>

definition get_or :: "'a \<Rightarrow> 'a option \<Rightarrow> 'a" where
  "get_or d v = (case v of None \<Rightarrow> d | Some x \<Rightarrow> x)"

text \<open>\<open>processes.get(name, {})\<close>.\<close>

definition info_of :: "(name \<rightharpoonup> pinfo) \<Rightarrow> name \<Rightarrow> pinfo" where
  "info_of procs n = (case procs n of None \<Rightarrow> empty_info | Some r \<Rightarrow> r)"

section \<open>The output tail (lines 81 to 83 of \<open>monitor_script\<close>)\<close>

text \<open>\<open>processes[name]["output"] = (processes[name]["output"] + line)[-20000:]\<close>.\<close>

definition append_output :: "string \<Rightarrow> string \<Rightarrow> string" where
  "append_output out line = last_chars 20000 (out @ line)"

text \<open>The tail after the lines \<open>ls\<close> were appended one by one to the tail \<open>out\<close>.\<close>

definition append_lines :: "string \<Rightarrow> string list \<Rightarrow> string" where
  "append_lines out ls = foldl append_output out ls"

section \<open>The state of the service\<close>

text \<open>
  A \<open>monitor_script\<close> thread is its three arguments and the place in the function body
  where it stands (the places are described with \<open>mon_step\<close> below). The state of the
  service is the registry \<open>processes\<close>, the queue objects, the \<open>monitor_script\<close> threads
  and the effects performed so far.
\<close>

datatype pc =
    Top
  | Check1 bool
  | Launched nat int
  | Reading nat
  | Broadcast nat string
  | Deliver nat "nat list" string
  | Recheck int
  | Check2 int bool
  | Backoff
  | Done
  | Crashed exn

record monitor =
  m_name :: name
  m_cmd :: "string list"
  m_policy :: string
  m_pc :: pc

record world =
  processes :: "name \<rightharpoonup> pinfo"
  queues :: "nat \<Rightarrow> queue"
  threads :: "nat \<rightharpoonup> monitor"
  effects :: "effect list"

section \<open>The broadcaster (\<open>_broadcast_line\<close>)\<close>

text \<open>
  Lines 48 and 49, under the lock:
  \<open>subs = processes.get(name, {}).get("subscribers", set()).copy()\<close>.
\<close>

definition snapshot_subs :: "(name \<rightharpoonup> pinfo) \<Rightarrow> name \<Rightarrow> nat list" where
  "snapshot_subs procs n = get_or [] (subscribers (info_of procs n))"

text \<open>
  Lines 50 to 55, outside the lock: \<open>q.put_nowait(line)\<close> for each queue of the snapshot,
  \<open>queue.Full\<close> swallowed.
\<close>

fun deliver :: "nat list \<Rightarrow> string \<Rightarrow> (nat \<Rightarrow> queue) \<Rightarrow> (nat \<Rightarrow> queue)" where
  "deliver [] line qs = qs"
| "deliver (q # subs) line qs =
     deliver subs line
       (case put_nowait line (qs q) of Inl e \<Rightarrow> qs | Inr q' \<Rightarrow> qs(q := q'))"

definition broadcast_line :: "name \<Rightarrow> string \<Rightarrow> world \<Rightarrow> world" where
  "broadcast_line n line w =
     (let subs = snapshot_subs (processes w) n
      in w\<lparr>queues := deliver subs line (queues w)\<rparr>)"

section \<open>The supervisor loop (\<open>monitor_script\<close>)\<close>

text \<open>
  \<open>processes[name][key] = value\<close> under the lock, as a function on the entry: it raises
  \<open>KeyError\<close> when the registry has no entry for the name.
\<close>

definition update_info :: "name \<Rightarrow> (pinfo \<Rightarrow> pinfo) \<Rightarrow> world \<Rightarrow> exn + world" where
  "update_info n f w =
     (case processes w n of
        None \<Rightarrow> Inl (KeyError n)
      | Some r \<Rightarrow> Inr (w\<lparr>processes := (processes w)(n \<mapsto> f r)\<rparr>))"

text \<open>
  What the operating system answers to one step of the loop: the outcome of
  \<open>subprocess.Popen\<close> (an exception or a new handle), the clock, the next line of the
  child's output (\<open>None\<close> when the stream is closed, an exception when the bytes read are
  not text) and the child's exit code.
\<close>

record env =
  env_popen :: "exn + nat"
  env_time :: int
  env_readline :: "exn + string option"
  env_returncode :: int

text \<open>
  One step of \<open>monitor_script(name, cmd, policy)\<close> from a control point. A step holds at
  most one \<open>with lock\<close> block, so other threads run between any two blocks of the loop:
  \<^item> \<open>Top\<close>: lines 61 and 62, \<open>should_stop\<close> is read;
  \<^item> \<open>Check1\<close>: lines 63 to 72, the loop stops or calls \<open>Popen\<close>;
  \<^item> \<open>Launched\<close>: lines 73 to 77;
  \<^item> \<open>Reading\<close>: lines 81 to 83 for a line, lines 86 to 89 at the end of the stream; an
    exception of the read leaves the function;
  \<^item> \<open>Broadcast\<close>, \<open>Deliver\<close>: line 84, the two halves of \<open>_broadcast_line\<close>;
  \<^item> \<open>Recheck\<close>: lines 91 and 92;
  \<^item> \<open>Check2\<close>: lines 94 to 111, up to \<open>time.sleep\<close>, \<open>continue\<close> or \<open>break\<close>;
  \<^item> \<open>Backoff\<close>: \<open>time.sleep(2)\<close> and \<open>continue\<close>;
  \<^item> \<open>Done\<close>: the function has returned; \<open>Crashed\<close>: an exception has left it.
\<close>

fun mon_step :: "env \<Rightarrow> name \<Rightarrow> string list \<Rightarrow> string \<Rightarrow> pc \<Rightarrow> world \<Rightarrow> pc \<times> world" where
  "mon_step e n cmd pol Top w =
     (case processes w n of
        None \<Rightarrow> (Crashed (KeyError n), w)
      | Some r \<Rightarrow> (Check1 (get_or False (should_stop r)), w))"
| "mon_step e n cmd pol (Check1 True) w =
     (case update_info n (\<lambda>r. r\<lparr>status := Some ''stopped''\<rparr>) w of
        Inl x \<Rightarrow> (Crashed x, w)
      | Inr w' \<Rightarrow> (Done, w'))"
| "mon_step e n cmd pol (Check1 False) w =
     (case env_popen e of
        Inl x \<Rightarrow> (Crashed x, w)
      | Inr h \<Rightarrow> (Launched h (env_time e), w\<lparr>effects := effects w @ [Popen cmd h]\<rparr>))"
| "mon_step e n cmd pol (Launched h t) w =
     (case update_info n
             (\<lambda>r. r\<lparr>process := Some h, status := Some ''running'', start_time := Some t,
                    output_buf := Some (get_or [] (output_buf r))\<rparr>) w of
        Inl x \<Rightarrow> (Crashed x, w)
      | Inr w' \<Rightarrow> (Reading h, w'))"
| "mon_step e n cmd pol (Reading h) w =
     (case env_readline e of
        Inl x \<Rightarrow> (Crashed x, w)
      | Inr (Some line) \<Rightarrow>
          (case processes w n of
             None \<Rightarrow> (Crashed (KeyError n), w)
           | Some r \<Rightarrow>
               (case output_buf r of
                  None \<Rightarrow> (Crashed (KeyError ''output''), w)
                | Some out \<Rightarrow>
                    (Broadcast h line,
                     w\<lparr>processes :=
                         (processes w)(n \<mapsto> r\<lparr>output_buf := Some (append_output out line)\<rparr>)\<rparr>)))
      | Inr None \<Rightarrow>
          (case update_info n (\<lambda>r. r\<lparr>returncode := Some (env_returncode e)\<rparr>) w of
             Inl x \<Rightarrow> (Crashed x, w)
           | Inr w' \<Rightarrow> (Recheck (env_returncode e), w')))"
| "mon_step e n cmd pol (Broadcast h line) w =
     (Deliver h (snapshot_subs (processes w) n) line, w)"
| "mon_step e n cmd pol (Deliver h subs line) w =
     (Reading h, w\<lparr>queues := deliver subs line (queues w)\<rparr>)"
| "mon_step e n cmd pol (Recheck code) w =
     (case processes w n of
        None \<Rightarrow> (Crashed (KeyError n), w)
      | Some r \<Rightarrow> (Check2 code (get_or False (should_stop r)), w))"
| "mon_step e n cmd pol (Check2 code True) w =
     (case update_info n (\<lambda>r. r\<lparr>status := Some ''stopped''\<rparr>) w of
        Inl x \<Rightarrow> (Crashed x, w)
      | Inr w' \<Rightarrow> (Done, w'))"
| "mon_step e n cmd pol (Check2 code False) w =
     (if code \<noteq> 0 then
        (case update_info n (\<lambda>r. r\<lparr>status := Some ''error''\<rparr>) w of
           Inl x \<Rightarrow> (Crashed x, w)
         | Inr w' \<Rightarrow>
             if pol = ''on-failure'' \<or> pol = ''always'' then (Backoff, w')
             else if pol = ''always'' then (Backoff, w')
             else (Done, w'))
      else
        (case update_info n (\<lambda>r. r\<lparr>status := Some ''stopped''\<rparr>) w of
           Inl x \<Rightarrow> (Crashed x, w)
         | Inr w' \<Rightarrow>
             if pol = ''always'' then (Backoff, w')
             else (Done, w')))"
| "mon_step e n cmd pol Backoff w = (Top, w\<lparr>effects := effects w @ [Sleep 2]\<rparr>)"
| "mon_step e n cmd pol Done w = (Done, w)"
| "mon_step e n cmd pol (Crashed x) w = (Crashed x, w)"

text \<open>One step of the monitor thread \<open>t\<close>; a thread that does not exist does nothing.\<close>

definition monitor_step :: "nat \<Rightarrow> env \<Rightarrow> world \<Rightarrow> world" where
  "monitor_step t e w =
     (case threads w t of
        None \<Rightarrow> w
      | Some m \<Rightarrow>
          (case mon_step e (m_name m) (m_cmd m) (m_policy m) (m_pc m) w of
             (pc', w') \<Rightarrow> w'\<lparr>threads := (threads w')(t \<mapsto> m\<lparr>m_pc := pc'\<rparr>)\<rparr>))"

text \<open>The steps of thread \<open>t\<close> one after the other, with no other thread in between.\<close>

fun monitor_run :: "nat \<Rightarrow> env list \<Rightarrow> world \<Rightarrow> world" where
  "monitor_run t [] w = w"
| "monitor_run t (e # es) w = monitor_run t es (monitor_step t e w)"

section \<open>The request handlers\<close>

text \<open>
  \<open>load_scripts()\<close> reads a file; its result is the parameter \<open>scripts\<close> of each handler,
  a dictionary in the order of its keys. A handler returns its response, or the exception
  that left it.
\<close>

record runtime =
  rt_status :: string
  rt_start_time :: "int option"
  rt_running_time :: "int option"
  rt_returncode :: "int option"
  rt_output :: string

datatype response =
    HTMLResponse string nat
  | RedirectResponse string nat
  | IndexPage scripts "(name \<times> string) list"
  | DetailPage name script_meta runtime

text \<open>\<open>name in scripts\<close> and \<open>scripts[name]\<close>.\<close>

definition lookup_script :: "scripts \<Rightarrow> name \<Rightarrow> script_meta option" where
  "lookup_script scripts n = map_of scripts n"

text \<open>\<open>processes.get(name, {}).get("status", "stopped")\<close> for every configured name.\<close>

definition status_snapshot :: "scripts \<Rightarrow> world \<Rightarrow> (name \<times> string) list" where
  "status_snapshot scripts w =
     map (\<lambda>(n, meta). (n, get_or ''stopped'' (status (info_of (processes w) n)))) scripts"

text \<open>Lines 119 to 121 of \<open>index\<close>: \<open>processes.setdefault(name, {...})\<close> for each script.\<close>

fun init_entries :: "scripts \<Rightarrow> (name \<rightharpoonup> pinfo) \<Rightarrow> (name \<rightharpoonup> pinfo)" where
  "init_entries [] procs = procs"
| "init_entries ((n, meta) # rest) procs =
     init_entries rest
       (case procs n of
          Some r \<Rightarrow> procs
        | None \<Rightarrow>
            procs(n \<mapsto> empty_info\<lparr>status := Some ''stopped'',
                     policy := Some (get_or ''on-failure'' (cfg_policy meta)),
                     subscribers := Some [], should_stop := Some False\<rparr>))"

definition index :: "scripts \<Rightarrow> world \<Rightarrow> response \<times> world" where
  "index scripts w =
     (let w' = w\<lparr>processes := init_entries scripts (processes w)\<rparr>
      in (IndexPage scripts (status_snapshot scripts w'), w'))"

text \<open>\<open>script_detail\<close>, the status query: it reads the registry and the clock.\<close>

definition script_detail :: "scripts \<Rightarrow> name \<Rightarrow> int \<Rightarrow> world \<Rightarrow> response" where
  "script_detail scripts n now w =
     (case lookup_script scripts n of
        None \<Rightarrow> HTMLResponse ''Script not found'' 404
      | Some meta \<Rightarrow>
          (let pinfo = info_of (processes w) n
           in DetailPage n meta
                \<lparr>rt_status = get_or ''stopped'' (status pinfo),
                 rt_start_time = start_time pinfo,
                 rt_running_time =
                   (case start_time pinfo of
                      None \<Rightarrow> None
                    | Some t \<Rightarrow> if t \<noteq> 0 then Some (now - t) else None),
                 rt_returncode = returncode pinfo,
                 rt_output = last_chars 2000 (get_or [] (output_buf pinfo))\<rparr>))"

text \<open>
  Lines 161 to 166 of \<open>start_script\<close>: \<open>processes.setdefault(name, {}).update({...})\<close>
  with the stop flag, the output buffer, the policy and the subscriber set.
\<close>

definition start_reset :: "script_meta \<Rightarrow> name \<Rightarrow> (name \<rightharpoonup> pinfo) \<Rightarrow> (name \<rightharpoonup> pinfo)" where
  "start_reset meta n procs =
     (let r = info_of procs n
      in procs(n \<mapsto> r\<lparr>should_stop := Some False, output_buf := Some [],
                    policy := Some (get_or ''on-failure'' (cfg_policy meta)),
                    subscribers := Some (get_or [] (subscribers r))\<rparr>))"

text \<open>
  \<open>start_script(name)\<close>. The new \<open>threading.Thread\<close> object is \<open>t\<close>; \<open>t.start()\<close> puts a
  \<open>monitor_script\<close> thread at the top of its loop.
\<close>

definition start_script :: "scripts \<Rightarrow> name \<Rightarrow> nat \<Rightarrow> world \<Rightarrow> (exn + response) \<times> world" where
  "start_script scripts n t w =
     (case lookup_script scripts n of
        None \<Rightarrow> (Inr (HTMLResponse ''Script not found'' 404), w)
      | Some meta \<Rightarrow>
          if status (info_of (processes w) n) = Some ''running''
          then (Inr (RedirectResponse (''/script/'' @ n) 303), w)
          else
            (let w1 = w\<lparr>processes := start_reset meta n (processes w)\<rparr>
             in case path meta of
                  None \<Rightarrow> (Inl (KeyError ''path''), w1)
                | Some p \<Rightarrow>
                    (let cmd = [''python3'', p] @ get_or [] (args meta);
                         pol = get_or ''on-failure'' (cfg_policy meta)
                     in case update_info n (\<lambda>r. r\<lparr>thread := Some t\<rparr>) w1 of
                          Inl x \<Rightarrow> (Inl x, w1)
                        | Inr w2 \<Rightarrow>
                            (Inr (RedirectResponse (''/script/'' @ n) 303),
                             w2\<lparr>threads := (threads w2)(t \<mapsto>
                                  \<lparr>m_name = n, m_cmd = cmd, m_policy = pol, m_pc = Top\<rparr>)\<rparr>))))"

text \<open>
  What the child answers to \<open>stop_script\<close>: \<open>proc.poll()\<close> (\<open>None\<close> while it runs) and
  whether \<open>proc.wait(timeout=5)\<close> raises.
\<close>

record stop_env =
  env_poll :: "int option"
  env_wait_raises :: bool

text \<open>Lines 184 to 189 of \<open>stop_script\<close>, outside the lock.\<close>

definition stop_terminate :: "nat option \<Rightarrow> stop_env \<Rightarrow> world \<Rightarrow> world" where
  "stop_terminate proc e w =
     (case proc of
        None \<Rightarrow> w
      | Some h \<Rightarrow>
          if env_poll e = None
          then w\<lparr>effects := effects w @ [Terminate h] @ (if env_wait_raises e then [Kill h] else [])\<rparr>
          else w)"

definition stop_script :: "name \<Rightarrow> stop_env \<Rightarrow> world \<Rightarrow> (exn + response) \<times> world" where
  "stop_script n e w =
     (case processes w n of
        None \<Rightarrow> (Inr (RedirectResponse ''/'' 303), w)
      | Some r \<Rightarrow>
          (let w1 = w\<lparr>processes := (processes w)(n \<mapsto> r\<lparr>should_stop := Some True\<rparr>)\<rparr>;
               proc = process r;
               w2 = stop_terminate proc e w1
           in case update_info n (\<lambda>r. r\<lparr>status := Some ''stopped''\<rparr>) w2 of
                Inl x \<Rightarrow> (Inl x, w2)
              | Inr w3 \<Rightarrow> (Inr (RedirectResponse (''/script/'' @ n) 303), w3)))"

text \<open>
  \<open>ws_logs\<close>, lines 214 to 220: the new queue \<open>q\<close> of capacity 1000 joins the subscribers of
  the name under the lock, the last 2000 characters of the output are read in the same
  block and sent when they are not empty.
\<close>

definition ws_subscribe :: "name \<Rightarrow> nat \<Rightarrow> world \<Rightarrow> string \<times> world" where
  "ws_subscribe n q w =
     (let r = info_of (processes w) n;
          r' = r\<lparr>subscribers := Some (List.insert q (get_or [] (subscribers r)))\<rparr>;
          tail = last_chars 2000 (get_or [] (output_buf r'))
      in (tail,
          w\<lparr>processes := (processes w)(n \<mapsto> r'),
            queues := (queues w)(q := \<lparr>maxsize = 1000, items = []\<rparr>),
            effects := effects w @ (if tail \<noteq> [] then [SendText q tail] else [])\<rparr>))"

text \<open>Lines 229 to 232, the \<open>finally\<close> block: the queue leaves the subscribers.\<close>

definition ws_unsubscribe :: "name \<Rightarrow> nat \<Rightarrow> world \<Rightarrow> world" where
  "ws_unsubscribe n q w =
     (case processes w n of
        None \<Rightarrow> w
      | Some r \<Rightarrow>
          (case subscribers r of
             None \<Rightarrow> w
           | Some subs \<Rightarrow>
               if q \<in> set subs
               then w\<lparr>processes := (processes w)(n \<mapsto> r\<lparr>subscribers := Some (removeAll q subs)\<rparr>)\<rparr>
               else w))"

text \<open>
  Lines 221 to 232. The first round of the loop evaluates \<open>websocket.loop\<close> (line 224).
  The \<open>WebSocket\<close> object that FastAPI hands to the handler has no attribute \<open>loop\<close>, so
  \<open>AttributeError\<close> is raised before \<open>q.get\<close> is called. The \<open>except\<close> clause catches
  \<open>WebSocketDisconnect\<close> only: the \<open>finally\<close> block takes the queue out of the subscribers
  and the exception leaves the handler. No line of the queue is sent to the client.
\<close>

definition ws_receive_loop :: "name \<Rightarrow> nat \<Rightarrow> world \<Rightarrow> exn \<times> world" where
  "ws_receive_loop n q w = (AttributeError ''loop'', ws_unsubscribe n q w)"

text \<open>\<open>ws_logs(websocket, name)\<close> as a whole, with the new queue \<open>q\<close>.\<close>

definition ws_logs :: "name \<Rightarrow> nat \<Rightarrow> world \<Rightarrow> exn \<times> world" where
  "ws_logs n q w = (case ws_subscribe n q w of (tail, w') \<Rightarrow> ws_receive_loop n q w')"

section \<open>Runs of the service\<close>

text \<open>
  What can happen next: a step of a monitor thread, or a request. A request handler runs
  as a whole; the steps of the monitor threads are interleaved with the requests. Of
  \<open>ws_logs\<close> the subscription (lines 214 to 220), the rest of the handler (lines 221 to
  232) and its \<open>finally\<close> block alone are actions.
\<close>

datatype action =
    Monitor nat env
  | Start name nat
  | Stop name stop_env
  | Subscribe name nat
  | Loop name nat
  | Unsubscribe name nat
  | Detail name int
  | Index

fun apply_action :: "scripts \<Rightarrow> action \<Rightarrow> world \<Rightarrow> world" where
  "apply_action scripts (Monitor t e) w = monitor_step t e w"
| "apply_action scripts (Start n t) w = snd (start_script scripts n t w)"
| "apply_action scripts (Stop n e) w = snd (stop_script n e w)"
| "apply_action scripts (Subscribe n q) w = snd (ws_subscribe n q w)"
| "apply_action scripts (Loop n q) w = snd (ws_receive_loop n q w)"
| "apply_action scripts (Unsubscribe n q) w = ws_unsubscribe n q w"
| "apply_action scripts (Detail n now) w = w"
| "apply_action scripts Index w = snd (index scripts w)"

fun run :: "scripts \<Rightarrow> action list \<Rightarrow> world \<Rightarrow> world" where
  "run scripts [] w = w"
| "run scripts (a # as) w = run scripts as (apply_action scripts a w)"

text \<open>The service right after its start: no entry, no thread, empty queues, no effect.\<close>

definition init_world :: world where
  "init_world = \<lparr>processes = Map.empty, queues = (\<lambda>q. \<lparr>maxsize = 1000, items = []\<rparr>),
     threads = Map.empty, effects = []\<rparr>"

text \<open>The lines \<open>ls\<close> published one after the other, with no other thread in between.\<close>

fun broadcast_all :: "name \<Rightarrow> string list \<Rightarrow> world \<Rightarrow> world" where
  "broadcast_all n [] w = w"
| "broadcast_all n (l # ls) w = broadcast_all n ls (broadcast_line n l w)"

text \<open>
  The monitor thread \<open>t\<close> reads the lines \<open>ls\<close> from its child: for each line the steps
  \<open>Reading\<close>, \<open>Broadcast\<close> and \<open>Deliver\<close>, with no other thread in between.
\<close>

fun produce :: "nat \<Rightarrow> string list \<Rightarrow> world \<Rightarrow> world" where
  "produce t [] w = w"
| "produce t (l # ls) w =
     produce t ls
       (monitor_run t
          [\<lparr>env_popen = Inr 0, env_time = 0, env_readline = Inr (Some l), env_returncode = 0\<rparr>,
           \<lparr>env_popen = Inr 0, env_time = 0, env_readline = Inr (Some l), env_returncode = 0\<rparr>,
           \<lparr>env_popen = Inr 0, env_time = 0, env_readline = Inr (Some l), env_returncode = 0\<rparr>] w)"

text \<open>\<open>processes.get(name, {}).get(key)\<close>, and the control point of a monitor thread.\<close>

definition get_key :: "(pinfo \<Rightarrow> 'a option) \<Rightarrow> world \<Rightarrow> name \<Rightarrow> 'a option" where
  "get_key f w n = f (info_of (processes w) n)"

definition pc_of :: "nat \<Rightarrow> world \<Rightarrow> pc option" where
  "pc_of t w = map_option m_pc (threads w t)"

section \<open>The restart table of the specification\<close>

text \<open>
  Section 4.2 of the specification, steps 6 and 7, in its own words: after a nonzero
  exit the loop relaunches for the policies \<open>OnFailure\<close> and \<open>Always\<close>, after a zero exit
  for \<open>Always\<close> only. The policies are the strings the code compares with.
\<close>

definition spec_status_after_exit :: "int \<Rightarrow> string" where
  "spec_status_after_exit code = (if code \<noteq> 0 then ''error'' else ''stopped'')"

definition spec_relaunch :: "string \<Rightarrow> int \<Rightarrow> bool" where
  "spec_relaunch pol code =
     (if code \<noteq> 0 then pol = ''on-failure'' \<or> pol = ''always'' else pol = ''always'')"

section \<open>Example configurations, environments and runs\<close>

definition job_scripts :: "string \<Rightarrow> scripts" where
  "job_scripts pol =
     [(''job'', \<lparr>path = Some ''job.py'', args = Some [], cfg_policy = Some pol\<rparr>)]"

definition os_env :: "exn + nat \<Rightarrow> string option \<Rightarrow> int \<Rightarrow> env" where
  "os_env p l c = \<lparr>env_popen = p, env_time = 100, env_readline = Inr l, env_returncode = c\<rparr>"

text \<open>\<open>Popen\<close> fails; \<open>Popen\<close> returns the handle \<open>h\<close>; the child prints a line; it exits.\<close>

definition launch_fails :: env where
  "launch_fails = os_env (Inl (OSError ''No such file or directory'')) None 0"

definition launch_ok :: "nat \<Rightarrow> env" where
  "launch_ok h = os_env (Inr h) None 0"

definition prints :: "string \<Rightarrow> env" where
  "prints l = os_env (Inr 0) (Some l) 0"

definition exits :: "int \<Rightarrow> env" where
  "exits c = os_env (Inr 0) None c"

text \<open>A child that has already exited when \<open>stop_script\<close> polls it.\<close>

definition child_gone :: stop_env where
  "child_gone = \<lparr>env_poll = Some 0, env_wait_raises = False\<rparr>"

definition child_alive :: stop_env where
  "child_alive = \<lparr>env_poll = None, env_wait_raises = False\<rparr>"

text \<open>
  \<open>job\<close> is started, thread 1 reads the stop flag and is about to call \<open>Popen\<close>.
\<close>

definition before_launch :: "string \<Rightarrow> world" where
  "before_launch pol = run (job_scripts pol) [Start ''job'' 1, Monitor 1 (exits 0)] init_world"

text \<open>Then \<open>Popen\<close> returns the handle 7 and the loop records the launch.\<close>

definition first_launch :: "string \<Rightarrow> world" where
  "first_launch pol =
     run (job_scripts pol) [Monitor 1 (launch_ok 7), Monitor 1 (exits 0)] (before_launch pol)"

text \<open>The child exits with \<open>code\<close>; the loop stores the code and reads the stop flag.\<close>

definition first_exit :: "string \<Rightarrow> int \<Rightarrow> world" where
  "first_exit pol code =
     run (job_scripts pol) [Monitor 1 (exits code), Monitor 1 (exits code)] (first_launch pol)"

text \<open>
  With the policy \<open>always\<close> and the exit code 1 the loop sets the status, sleeps, reads
  the stop flag, calls \<open>Popen\<close> again (handle 8) and records the second launch.
\<close>

definition second_launch :: world where
  "second_launch =
     run (job_scripts ''always'')
       [Monitor 1 (exits 1), Monitor 1 (exits 1), Monitor 1 (exits 1),
        Monitor 1 (launch_ok 8), Monitor 1 (exits 1)]
       (first_exit ''always'' 1)"

text \<open>\<open>Popen\<close> fails at the first launch.\<close>

definition failed_launch :: world where
  "failed_launch = monitor_step 1 launch_fails (before_launch ''always'')"

text \<open>The first child prints one line of 2001 characters.\<close>

definition long_line :: world where
  "long_line =
     run (job_scripts ''never'')
       [Monitor 1 (prints (replicate 2001 CHR ''x'')), Monitor 1 (exits 0), Monitor 1 (exits 0)]
       (first_launch ''never'')"

text \<open>\<open>job\<close> is stopped before its thread has taken a step; then the thread reads the flag.\<close>

definition stopped_early :: world where
  "stopped_early =
     run (job_scripts ''always'') [Start ''job'' 1, Stop ''job'' child_gone] init_world"

definition stop_seen :: world where
  "stop_seen = monitor_step 1 (exits 0) stopped_early"

text \<open>\<open>job\<close> is stopped while its first child runs; the child is terminated and exits.\<close>

definition stopped_running :: world where
  "stopped_running =
     run (job_scripts ''always'') [Stop ''job'' child_alive, Monitor 1 (exits (- 15))]
       (first_launch ''always'')"

text \<open>
  Two subscribers of \<open>job\<close>; the client of queue 6 is slow and has 1000 lines waiting.
\<close>

definition slow_subscriber :: world where
  "slow_subscriber =
     (run (job_scripts ''never'') [Subscribe ''job'' 5, Subscribe ''job'' 6] (first_launch ''never''))
       \<lparr>queues := (\<lambda>q. if q = 6 then \<lparr>maxsize = 1000, items = replicate 1000 ''old''\<rparr>
                        else \<lparr>maxsize = 1000, items = []\<rparr>)\<rparr>"

text \<open>
  The first child has printed the line \<open>A\<close>; the loop has appended it to the output
  (line 83) and is about to publish it (line 84).
\<close>

definition appended_not_published :: world where
  "appended_not_published = monitor_step 1 (prints ''A'') (first_launch ''never'')"

section \<open>Properties of the output tail\<close>

lemma last_chars_length: "length (last_chars n s) = min n (length s)"
  by (simp add: last_chars_def)

lemma last_chars_append: "last_chars n (last_chars n s @ t) = last_chars n (s @ t)"
  by (cases "n \<le> length s") (simp_all add: last_chars_def add.commute)

lemma foldl_append_output:
  "last_chars 20000 (foldl append_output out ls) = last_chars 20000 (out @ concat ls)"
proof (induction ls arbitrary: out)
  case Nil
  show ?case by simp
next
  case (Cons l ls)
  have "last_chars 20000 (foldl append_output (append_output out l) ls)
        = last_chars 20000 (append_output out l @ concat ls)"
    by (rule Cons.IH)
  also have "\<dots> = last_chars 20000 ((out @ l) @ concat ls)"
    unfolding append_output_def by (rule last_chars_append)
  finally show ?case by simp
qed

lemma foldl_append_output_short:
  "length out \<le> 20000 \<Longrightarrow> length (foldl append_output out ls) \<le> 20000"
  by (induction ls arbitrary: out) (simp_all add: append_output_def last_chars_length)

section \<open>The stop flag and the end of the loop: what each step changes\<close>


lemma mon_step_should_stop:
  "get_key should_stop (snd (mon_step e n cmd pol p w)) k = get_key should_stop w k"
  by (cases "(e, n, cmd, pol, p, w)" rule: mon_step.cases)
     (auto simp: get_key_def info_of_def update_info_def split: option.splits sum.splits)

lemma monitor_step_should_stop:
  "get_key should_stop (monitor_step t e w) k = get_key should_stop w k"
proof (cases "threads w t")
  case None
  then show ?thesis by (simp add: monitor_step_def)
next
  case (Some m)
  obtain p' w' where st: "mon_step e (m_name m) (m_cmd m) (m_policy m) (m_pc m) w = (p', w')"
    by (cases "mon_step e (m_name m) (m_cmd m) (m_policy m) (m_pc m) w")
  have "get_key should_stop w' k = get_key should_stop w k"
    using mon_step_should_stop [of e "m_name m" "m_cmd m" "m_policy m" "m_pc m" w k] st by simp
  then show ?thesis using Some st by (simp add: monitor_step_def get_key_def)
qed

lemma init_entries_keeps: "procs n = Some r \<Longrightarrow> init_entries scripts procs n = Some r"
proof (induction scripts arbitrary: procs)
  case Nil
  then show ?case by simp
next
  case (Cons a scripts)
  obtain k meta where a: "a = (k, meta)" by (cases a)
  show ?case
  proof (cases "procs k")
    case None
    then have "k \<noteq> n" using Cons.prems by auto
    then show ?thesis using a None Cons.prems by (simp add: Cons.IH)
  next
    case (Some r')
    then show ?thesis using a Cons.prems by (simp add: Cons.IH)
  qed
qed

lemma index_should_stop:
  "get_key should_stop w n = Some True \<Longrightarrow> get_key should_stop (snd (index scripts w)) n = Some True"
  by (cases "processes w n")
     (simp_all add: index_def get_key_def info_of_def empty_info_def Let_def init_entries_keeps)

lemma stop_should_stop:
  "get_key should_stop w n = Some True \<Longrightarrow> get_key should_stop (snd (stop_script k e w)) n = Some True"
  by (auto simp: stop_script_def get_key_def info_of_def update_info_def stop_terminate_def Let_def
           split: option.splits sum.splits)

lemma start_other_should_stop:
  "k \<noteq> n \<Longrightarrow> get_key should_stop (snd (start_script scripts k t w)) n = get_key should_stop w n"
  by (auto simp: start_script_def get_key_def info_of_def update_info_def start_reset_def Let_def
           split: option.splits sum.splits)

lemma subscribe_should_stop:
  "get_key should_stop (snd (ws_subscribe k q w)) n = get_key should_stop w n"
  by (auto simp: ws_subscribe_def get_key_def info_of_def empty_info_def Let_def)

lemma unsubscribe_should_stop:
  "get_key should_stop (ws_unsubscribe k q w) n = get_key should_stop w n"
  by (auto simp: ws_unsubscribe_def get_key_def info_of_def split: option.splits)

lemma loop_should_stop:
  "get_key should_stop (snd (ws_receive_loop k q w)) n = get_key should_stop w n"
  by (simp add: ws_receive_loop_def unsubscribe_should_stop)

lemma sticky:
  assumes "get_key should_stop w n = Some True" and "\<And>t. a \<noteq> Start n t"
  shows "get_key should_stop (apply_action scripts a w) n = Some True"
proof (cases a)
  case (Monitor t e)
  then show ?thesis using assms(1) by (simp add: monitor_step_should_stop)
next
  case (Start k t)
  then have "k \<noteq> n" using assms(2) by auto
  then show ?thesis using Start assms(1) by (simp add: start_other_should_stop)
next
  case (Stop k e)
  then show ?thesis using assms(1) by (simp add: stop_should_stop)
next
  case (Subscribe k q)
  then show ?thesis using assms(1) by (simp add: subscribe_should_stop)
next
  case (Loop k q)
  then show ?thesis using assms(1) by (simp add: loop_should_stop)
next
  case (Unsubscribe k q)
  then show ?thesis using assms(1) by (simp add: unsubscribe_should_stop)
next
  case (Detail k now)
  then show ?thesis using assms(1) by simp
next
  case Index
  then show ?thesis using assms(1) by (simp add: index_should_stop)
qed


lemma start_clears_should_stop:
  "lookup_script scripts n = Some meta \<Longrightarrow> get_key status w n \<noteq> Some ''running'' \<Longrightarrow>
   get_key should_stop (snd (start_script scripts n t w)) n = Some False"
  by (auto simp: start_script_def get_key_def info_of_def update_info_def start_reset_def Let_def
           split: option.splits sum.splits)

lemma monitor_keeps_pc: "m_pc m = p \<Longrightarrow> m\<lparr>m_pc := p\<rparr> = m"
  by (cases m) simp

lemma monitor_step_finished:
  "threads w t = Some m \<Longrightarrow> m_pc m = Done \<or> m_pc m = Crashed x \<Longrightarrow> monitor_step t e w = w"
  by (auto simp: monitor_step_def monitor_keeps_pc map_upd_triv)

lemma monitor_run_finished:
  "threads w t = Some m \<Longrightarrow> m_pc m = Done \<or> m_pc m = Crashed x \<Longrightarrow> monitor_run t es w = w"
  by (induction es) (simp_all add: monitor_step_finished)

lemma monitor_step_observes:
  assumes "threads w t = Some m" and "get_key should_stop w (m_name m) = Some True"
  shows "m_pc m = Top \<Longrightarrow> monitor_step t e w = w\<lparr>threads := (threads w)(t \<mapsto> m\<lparr>m_pc := Check1 True\<rparr>)\<rparr>"
    and "m_pc m = Recheck code \<Longrightarrow>
         monitor_step t e w = w\<lparr>threads := (threads w)(t \<mapsto> m\<lparr>m_pc := Check2 code True\<rparr>)\<rparr>"
  using assms
  by (auto simp: monitor_step_def get_key_def info_of_def get_or_def empty_info_def split: option.splits)

lemma monitor_step_stops:
  assumes "threads w t = Some m" and "processes w (m_name m) = Some r"
    and "m_pc m = Check1 True \<or> m_pc m = Check2 code True"
  shows "monitor_step t e w =
           w\<lparr>processes := (processes w)(m_name m \<mapsto> r\<lparr>status := Some ''stopped''\<rparr>),
             threads := (threads w)(t \<mapsto> m\<lparr>m_pc := Done\<rparr>)\<rparr>"
  using assms by (auto simp: monitor_step_def update_info_def)


section \<open>Evaluating the example runs\<close>

lemmas model_defs =
  job_scripts_def os_env_def launch_fails_def launch_ok_def prints_def exits_def
  child_gone_def child_alive_def init_world_def start_script_def stop_script_def
  stop_terminate_def lookup_script_def info_of_def empty_info_def start_reset_def
  get_or_def update_info_def monitor_step_def ws_subscribe_def ws_receive_loop_def ws_logs_def
  ws_unsubscribe_def snapshot_subs_def put_nowait_def get_key_def pc_of_def
  index_def status_snapshot_def script_detail_def broadcast_line_def
  last_chars_def append_output_def Let_def

lemma before_launch_eval:
  "before_launch pol =
     \<lparr>processes = [''job'' \<mapsto> empty_info\<lparr>should_stop := Some False, output_buf := Some [],
                      policy := Some pol, subscribers := Some [], thread := Some 1\<rparr>],
      queues = (\<lambda>q. \<lparr>maxsize = 1000, items = []\<rparr>),
      threads = [1 \<mapsto> \<lparr>m_name = ''job'', m_cmd = [''python3'', ''job.py''], m_policy = pol,
                       m_pc = Check1 False\<rparr>],
      effects = []\<rparr>"
  by (simp add: before_launch_def model_defs)

lemma first_launch_eval:
  "first_launch pol =
     \<lparr>processes = [''job'' \<mapsto> \<lparr>process = Some 7, thread = Some 1, status = Some ''running'',
                      start_time = Some 100, output_buf = Some [], returncode = None,
                      policy = Some pol, should_stop = Some False, subscribers = Some []\<rparr>],
      queues = (\<lambda>q. \<lparr>maxsize = 1000, items = []\<rparr>),
      threads = [1 \<mapsto> \<lparr>m_name = ''job'', m_cmd = [''python3'', ''job.py''], m_policy = pol,
                       m_pc = Reading 7\<rparr>],
      effects = [Popen [''python3'', ''job.py''] 7]\<rparr>"
  by (simp add: first_launch_def before_launch_eval model_defs)

lemma first_exit_eval:
  "first_exit pol code =
     \<lparr>processes = [''job'' \<mapsto> \<lparr>process = Some 7, thread = Some 1, status = Some ''running'',
                      start_time = Some 100, output_buf = Some [], returncode = Some code,
                      policy = Some pol, should_stop = Some False, subscribers = Some []\<rparr>],
      queues = (\<lambda>q. \<lparr>maxsize = 1000, items = []\<rparr>),
      threads = [1 \<mapsto> \<lparr>m_name = ''job'', m_cmd = [''python3'', ''job.py''], m_policy = pol,
                       m_pc = Check2 code False\<rparr>],
      effects = [Popen [''python3'', ''job.py''] 7]\<rparr>"
  by (simp add: first_exit_def first_launch_eval model_defs)

lemma second_launch_eval:
  "second_launch =
     \<lparr>processes = [''job'' \<mapsto> \<lparr>process = Some 8, thread = Some 1, status = Some ''running'',
                      start_time = Some 100, output_buf = Some [], returncode = Some 1,
                      policy = Some ''always'', should_stop = Some False, subscribers = Some []\<rparr>],
      queues = (\<lambda>q. \<lparr>maxsize = 1000, items = []\<rparr>),
      threads = [1 \<mapsto> \<lparr>m_name = ''job'', m_cmd = [''python3'', ''job.py''],
                       m_policy = ''always'', m_pc = Reading 8\<rparr>],
      effects = [Popen [''python3'', ''job.py''] 7, Sleep 2, Popen [''python3'', ''job.py''] 8]\<rparr>"
  by (simp add: second_launch_def first_exit_eval model_defs)

lemma stopped_early_eval:
  "stopped_early =
     \<lparr>processes = [''job'' \<mapsto> empty_info\<lparr>should_stop := Some True, output_buf := Some [],
                      policy := Some ''always'', subscribers := Some [], thread := Some 1,
                      status := Some ''stopped''\<rparr>],
      queues = (\<lambda>q. \<lparr>maxsize = 1000, items = []\<rparr>),
      threads = [1 \<mapsto> \<lparr>m_name = ''job'', m_cmd = [''python3'', ''job.py''],
                       m_policy = ''always'', m_pc = Top\<rparr>],
      effects = []\<rparr>"
  by (simp add: stopped_early_def model_defs)

lemma stop_seen_eval:
  "stop_seen = stopped_early\<lparr>threads := [1 \<mapsto> \<lparr>m_name = ''job'', m_cmd = [''python3'', ''job.py''],
                       m_policy = ''always'', m_pc = Check1 True\<rparr>]\<rparr>"
  by (simp add: stop_seen_def stopped_early_eval model_defs)

lemma stopped_running_eval:
  "stopped_running =
     \<lparr>processes = [''job'' \<mapsto> \<lparr>process = Some 7, thread = Some 1, status = Some ''stopped'',
                      start_time = Some 100, output_buf = Some [], returncode = Some (- 15),
                      policy = Some ''always'', should_stop = Some True, subscribers = Some []\<rparr>],
      queues = (\<lambda>q. \<lparr>maxsize = 1000, items = []\<rparr>),
      threads = [1 \<mapsto> \<lparr>m_name = ''job'', m_cmd = [''python3'', ''job.py''],
                       m_policy = ''always'', m_pc = Recheck (- 15)\<rparr>],
      effects = [Popen [''python3'', ''job.py''] 7, Terminate 7]\<rparr>"
  by (simp add: stopped_running_def first_launch_eval model_defs)

section \<open>The stop flag\<close>

text \<open>
  C3. The stop flag is sticky: once \<open>should_stop\<close> of a name is \<open>True\<close>, every step of a
  monitor thread and every request other than a start of that name leaves it \<open>True\<close>,
  and a start of the name that is not refused sets it to \<open>False\<close>. A loop that reads the
  flag as \<open>True\<close> at the top of the loop or after the exit of its child has observed it;
  its next step sets the status to \<open>stopped\<close> and ends the loop without any effect, and
  no later step of the thread does anything.
\<close>

theorem should_stop_sticky:
  "(get_key should_stop w n = Some True \<and> (\<forall>t. a \<noteq> Start n t) \<longrightarrow>
      get_key should_stop (apply_action scripts a w) n = Some True) \<and>
   (lookup_script scripts n' = Some meta \<and> get_key status w' n' \<noteq> Some ''running'' \<longrightarrow>
      get_key should_stop (apply_action scripts (Start n' t') w') n' = Some False) \<and>
   (threads w1 t1 = Some m1 \<and> m_pc m1 = Top \<and>
    get_key should_stop w1 (m_name m1) = Some True \<longrightarrow>
      pc_of t1 (monitor_step t1 e1 w1) = Some (Check1 True)) \<and>
   (threads w2 t2 = Some m2 \<and> m_pc m2 = Recheck code \<and>
    get_key should_stop w2 (m_name m2) = Some True \<longrightarrow>
      pc_of t2 (monitor_step t2 e2 w2) = Some (Check2 code True)) \<and>
   (threads w3 t3 = Some m3 \<and> (m_pc m3 = Check1 True \<or> m_pc m3 = Check2 code' True) \<and>
    processes w3 (m_name m3) \<noteq> None \<longrightarrow>
      get_key status (monitor_step t3 e3 w3) (m_name m3) = Some ''stopped'' \<and>
      pc_of t3 (monitor_step t3 e3 w3) = Some Done \<and>
      effects (monitor_step t3 e3 w3) = effects w3 \<and>
      monitor_run t3 es (monitor_step t3 e3 w3) = monitor_step t3 e3 w3)"
proof (intro conjI impI)
  assume "get_key should_stop w n = Some True \<and> (\<forall>t. a \<noteq> Start n t)"
  then show "get_key should_stop (apply_action scripts a w) n = Some True"
    by (simp add: sticky)
next
  assume "lookup_script scripts n' = Some meta \<and> get_key status w' n' \<noteq> Some ''running''"
  then show "get_key should_stop (apply_action scripts (Start n' t') w') n' = Some False"
    by (simp add: start_clears_should_stop)
next
  assume "threads w1 t1 = Some m1 \<and> m_pc m1 = Top \<and>
    get_key should_stop w1 (m_name m1) = Some True"
  then show "pc_of t1 (monitor_step t1 e1 w1) = Some (Check1 True)"
    by (simp add: monitor_step_observes(1) pc_of_def)
next
  assume "threads w2 t2 = Some m2 \<and> m_pc m2 = Recheck code \<and>
    get_key should_stop w2 (m_name m2) = Some True"
  then show "pc_of t2 (monitor_step t2 e2 w2) = Some (Check2 code True)"
    by (simp add: monitor_step_observes(2) pc_of_def)
next
  assume h: "threads w3 t3 = Some m3 \<and> (m_pc m3 = Check1 True \<or> m_pc m3 = Check2 code' True) \<and>
    processes w3 (m_name m3) \<noteq> None"
  then obtain r where r: "processes w3 (m_name m3) = Some r" by auto
  have st: "monitor_step t3 e3 w3 =
      w3\<lparr>processes := (processes w3)(m_name m3 \<mapsto> r\<lparr>status := Some ''stopped''\<rparr>),
         threads := (threads w3)(t3 \<mapsto> m3\<lparr>m_pc := Done\<rparr>)\<rparr>"
    using h r by (intro monitor_step_stops) auto
  show "get_key status (monitor_step t3 e3 w3) (m_name m3) = Some ''stopped''"
    by (simp add: st get_key_def info_of_def)
  show "pc_of t3 (monitor_step t3 e3 w3) = Some Done"
    by (simp add: st pc_of_def)
  show "effects (monitor_step t3 e3 w3) = effects w3"
    by (simp add: st)
  have "threads (monitor_step t3 e3 w3) t3 = Some (m3\<lparr>m_pc := Done\<rparr>)"
    by (simp add: st)
  then show "monitor_run t3 es (monitor_step t3 e3 w3) = monitor_step t3 e3 w3"
    by (rule monitor_run_finished) simp
qed


theorem should_stop_sticky_witness:
  "get_key should_stop stopped_early ''job'' = Some True \<and>
   get_key should_stop
     (apply_action (job_scripts ''always'') (Stop ''job'' child_gone) stopped_early) ''job''
     = Some True \<and>
   lookup_script (job_scripts ''always'') ''job''
     = Some \<lparr>path = Some ''job.py'', args = Some [], cfg_policy = Some ''always''\<rparr> \<and>
   get_key status stopped_early ''job'' = Some ''stopped'' \<and>
   get_key should_stop
     (apply_action (job_scripts ''always'') (Start ''job'' 2) stopped_early) ''job''
     = Some False \<and>
   pc_of 1 stopped_early = Some Top \<and>
   pc_of 1 (monitor_step 1 (launch_ok 9) stopped_early) = Some (Check1 True) \<and>
   pc_of 1 stopped_running = Some (Recheck (- 15)) \<and>
   get_key should_stop stopped_running ''job'' = Some True \<and>
   pc_of 1 (monitor_step 1 (launch_ok 9) stopped_running) = Some (Check2 (- 15) True) \<and>
   pc_of 1 stop_seen = Some (Check1 True) \<and>
   get_key status (monitor_step 1 (launch_ok 9) stop_seen) ''job'' = Some ''stopped'' \<and>
   pc_of 1 (monitor_step 1 (launch_ok 9) stop_seen) = Some Done \<and>
   effects (monitor_step 1 (launch_ok 9) stop_seen) = [] \<and>
   monitor_run 1 [launch_ok 9, launch_ok 9] (monitor_step 1 (launch_ok 9) stop_seen)
     = monitor_step 1 (launch_ok 9) stop_seen"
  using should_stop_sticky
    [where w = stopped_early and n = "''job''" and a = "Stop ''job'' child_gone"
       and scripts = "job_scripts ''always''" and n' = "''job''"
       and meta = "\<lparr>path = Some ''job.py'', args = Some [], cfg_policy = Some ''always''\<rparr>"
       and w' = stopped_early and t' = 2
       and ?w1.0 = stopped_early and ?t1.0 = 1 and ?e1.0 = "launch_ok 9"
       and ?m1.0 = "\<lparr>m_name = ''job'', m_cmd = [''python3'', ''job.py''],
                       m_policy = ''always'', m_pc = Top\<rparr>"
       and ?w2.0 = stopped_running and ?t2.0 = 1 and ?e2.0 = "launch_ok 9" and code = "- 15"
       and ?m2.0 = "\<lparr>m_name = ''job'', m_cmd = [''python3'', ''job.py''],
                       m_policy = ''always'', m_pc = Recheck (- 15)\<rparr>"
       and ?w3.0 = stop_seen and ?t3.0 = 1 and ?e3.0 = "launch_ok 9" and code' = 0
       and ?m3.0 = "\<lparr>m_name = ''job'', m_cmd = [''python3'', ''job.py''],
                       m_policy = ''always'', m_pc = Check1 True\<rparr>"
       and es = "[launch_ok 9, launch_ok 9]"]
  by (simp add: stopped_early_eval stopped_running_eval stop_seen_eval model_defs)

section \<open>The steps of the loop and the restart policy\<close>


lemma step_top:
  "threads w t = Some m \<Longrightarrow> m_pc m = Top \<Longrightarrow> processes w (m_name m) = Some r \<Longrightarrow>
   monitor_step t e w =
     w\<lparr>threads := (threads w)(t \<mapsto> m\<lparr>m_pc := Check1 (get_or False (should_stop r))\<rparr>)\<rparr>"
  by (simp add: monitor_step_def)

lemma step_popen_ok:
  "threads w t = Some m \<Longrightarrow> m_pc m = Check1 False \<Longrightarrow> env_popen e = Inr h \<Longrightarrow>
   monitor_step t e w =
     w\<lparr>effects := effects w @ [Popen (m_cmd m) h],
       threads := (threads w)(t \<mapsto> m\<lparr>m_pc := Launched h (env_time e)\<rparr>)\<rparr>"
  by (simp add: monitor_step_def)

lemma step_popen_raises:
  "threads w t = Some m \<Longrightarrow> m_pc m = Check1 False \<Longrightarrow> env_popen e = Inl x \<Longrightarrow>
   monitor_step t e w = w\<lparr>threads := (threads w)(t \<mapsto> m\<lparr>m_pc := Crashed x\<rparr>)\<rparr>"
  by (simp add: monitor_step_def)

lemma step_launched:
  "threads w t = Some m \<Longrightarrow> m_pc m = Launched h ts \<Longrightarrow> processes w (m_name m) = Some r \<Longrightarrow>
   monitor_step t e w =
     w\<lparr>processes := (processes w)(m_name m \<mapsto>
          r\<lparr>process := Some h, status := Some ''running'', start_time := Some ts,
            output_buf := Some (get_or [] (output_buf r))\<rparr>),
       threads := (threads w)(t \<mapsto> m\<lparr>m_pc := Reading h\<rparr>)\<rparr>"
  by (simp add: monitor_step_def update_info_def)

lemma step_policy:
  "threads w t = Some m \<Longrightarrow> m_pc m = Check2 code False \<Longrightarrow> processes w (m_name m) = Some r \<Longrightarrow>
   monitor_step t e w =
     w\<lparr>processes := (processes w)(m_name m \<mapsto> r\<lparr>status := Some (spec_status_after_exit code)\<rparr>),
       threads := (threads w)(t \<mapsto>
          m\<lparr>m_pc := if spec_relaunch (m_policy m) code then Backoff else Done\<rparr>)\<rparr>"
  by (simp add: monitor_step_def update_info_def spec_status_after_exit_def spec_relaunch_def)

lemma step_backoff:
  "threads w t = Some m \<Longrightarrow> m_pc m = Backoff \<Longrightarrow>
   monitor_step t e w =
     w\<lparr>effects := effects w @ [Sleep 2], threads := (threads w)(t \<mapsto> m\<lparr>m_pc := Top\<rparr>)\<rparr>"
  by (simp add: monitor_step_def)

text \<open>
  C2. When a child has exited and the stop flag was read as \<open>False\<close>, the loop sets the
  status to \<open>error\<close> for a nonzero exit code and to \<open>stopped\<close> for the exit code zero, and
  creates no process in that step. It goes on to the back-off exactly when the table of
  the specification says so (nonzero code: \<open>on-failure\<close> or \<open>always\<close>; zero: \<open>always\<close>):
  then it sleeps 2 time units, returns to the top of the loop and, the stop flag being
  still unset and \<open>Popen\<close> succeeding, launches the next child. Otherwise the loop has
  ended with the status it has set, and no further step of the thread does anything.
\<close>

theorem restart_policy:
  assumes "threads w t = Some m" and "m_pc m = Check2 code False"
    and "processes w (m_name m) = Some r"
  shows "get_key status (monitor_step t e w) (m_name m) = Some (spec_status_after_exit code) \<and>
    effects (monitor_step t e w) = effects w \<and>
    (spec_relaunch (m_policy m) code \<longrightarrow>
       pc_of t (monitor_step t e w) = Some Backoff \<and>
       pc_of t (monitor_run t [e, e1] w) = Some Top \<and>
       effects (monitor_run t [e, e1] w) = effects w @ [Sleep 2] \<and>
       processes (monitor_run t [e, e1] w) = processes (monitor_step t e w) \<and>
       (get_or False (should_stop r) = False \<and> env_popen e3 = Inr h \<longrightarrow>
          effects (monitor_run t [e, e1, e2, e3] w) = effects w @ [Sleep 2, Popen (m_cmd m) h] \<and>
          pc_of t (monitor_run t [e, e1, e2, e3] w) = Some (Launched h (env_time e3)))) \<and>
    (\<not> spec_relaunch (m_policy m) code \<longrightarrow>
       pc_of t (monitor_step t e w) = Some Done \<and>
       monitor_run t es (monitor_step t e w) = monitor_step t e w)"
proof -
  let ?r = "r\<lparr>status := Some (spec_status_after_exit code)\<rparr>"
  let ?p = "if spec_relaunch (m_policy m) code then Backoff else Done"
  let ?w1 = "w\<lparr>processes := (processes w)(m_name m \<mapsto> ?r),
               threads := (threads w)(t \<mapsto> m\<lparr>m_pc := ?p\<rparr>)\<rparr>"
  have s1: "monitor_step t e w = ?w1"
    using assms by (rule step_policy)
  have a: "get_key status (monitor_step t e w) (m_name m) = Some (spec_status_after_exit code)"
    by (simp add: s1 get_key_def info_of_def)
  have b: "effects (monitor_step t e w) = effects w"
    by (simp add: s1)
  have c: "pc_of t (monitor_step t e w) = Some ?p"
    by (simp add: s1 pc_of_def)
  have d: "monitor_run t es (monitor_step t e w) = monitor_step t e w"
    if "\<not> spec_relaunch (m_policy m) code"
  proof -
    have "threads (monitor_step t e w) t = Some (m\<lparr>m_pc := Done\<rparr>)"
      using that by (simp add: s1)
    then show ?thesis by (rule monitor_run_finished) simp
  qed
  have f: "pc_of t (monitor_run t [e, e1] w) = Some Top \<and>
       effects (monitor_run t [e, e1] w) = effects w @ [Sleep 2] \<and>
       processes (monitor_run t [e, e1] w) = processes (monitor_step t e w) \<and>
       (get_or False (should_stop r) = False \<and> env_popen e3 = Inr h \<longrightarrow>
          effects (monitor_run t [e, e1, e2, e3] w) = effects w @ [Sleep 2, Popen (m_cmd m) h] \<and>
          pc_of t (monitor_run t [e, e1, e2, e3] w) = Some (Launched h (env_time e3)))"
    if re: "spec_relaunch (m_policy m) code"
  proof -
    let ?w2 = "w\<lparr>processes := (processes w)(m_name m \<mapsto> ?r),
                  effects := effects w @ [Sleep 2],
                  threads := (threads w)(t \<mapsto> m\<lparr>m_pc := Top\<rparr>)\<rparr>"
    let ?w3 = "w\<lparr>processes := (processes w)(m_name m \<mapsto> ?r),
                  effects := effects w @ [Sleep 2],
                  threads := (threads w)(t \<mapsto> m\<lparr>m_pc := Check1 (get_or False (should_stop r))\<rparr>)\<rparr>"
    let ?w4 = "w\<lparr>processes := (processes w)(m_name m \<mapsto> ?r),
                  effects := effects w @ [Sleep 2, Popen (m_cmd m) h],
                  threads := (threads w)(t \<mapsto> m\<lparr>m_pc := Launched h (env_time e3)\<rparr>)\<rparr>"
    have r2: "monitor_run t [e, e1] w = ?w2"
      using re step_backoff [of ?w1 t "m\<lparr>m_pc := Backoff\<rparr>" e1] by (simp add: s1)
    have "monitor_step t e2 ?w2 = ?w3"
      using step_top [of ?w2 t "m\<lparr>m_pc := Top\<rparr>" ?r e2] by simp
    then have r3: "monitor_run t [e, e1, e2] w = ?w3"
      using r2 by simp
    have r4: "monitor_run t [e, e1, e2, e3] w = ?w4"
      if "get_or False (should_stop r) = False" and "env_popen e3 = Inr h"
    proof -
      have "monitor_step t e3 ?w3 = ?w4"
        using that step_popen_ok [of ?w3 t "m\<lparr>m_pc := Check1 False\<rparr>" e3 h] by simp
      then show ?thesis using r3 by simp
    qed
    show ?thesis
      using r2 r4 by (simp del: monitor_run.simps add: s1 pc_of_def)
  qed
  show ?thesis using a b c d f by simp
qed


theorem restart_policy_witness:
  "pc_of 1 (first_exit ''on-failure'' 1) = Some (Check2 1 False) \<and>
   spec_relaunch ''on-failure'' 1 \<and>
   get_key should_stop (first_exit ''on-failure'' 1) ''job'' = Some False \<and>
   get_key status (monitor_step 1 (exits 1) (first_exit ''on-failure'' 1)) ''job'' = Some ''error'' \<and>
   pc_of 1 (monitor_step 1 (exits 1) (first_exit ''on-failure'' 1)) = Some Backoff \<and>
   effects (monitor_run 1 [exits 1, exits 1, exits 1, launch_ok 8] (first_exit ''on-failure'' 1))
     = [Popen [''python3'', ''job.py''] 7, Sleep 2, Popen [''python3'', ''job.py''] 8] \<and>
   pc_of 1 (first_exit ''on-failure'' 0) = Some (Check2 0 False) \<and>
   \<not> spec_relaunch ''on-failure'' 0 \<and>
   get_key status (monitor_step 1 (exits 0) (first_exit ''on-failure'' 0)) ''job'' = Some ''stopped'' \<and>
   pc_of 1 (monitor_step 1 (exits 0) (first_exit ''on-failure'' 0)) = Some Done \<and>
   effects (monitor_step 1 (exits 0) (first_exit ''on-failure'' 0))
     = [Popen [''python3'', ''job.py''] 7] \<and>
   monitor_run 1 [launch_ok 8, launch_ok 8] (monitor_step 1 (exits 0) (first_exit ''on-failure'' 0))
     = monitor_step 1 (exits 0) (first_exit ''on-failure'' 0)"
  using restart_policy
    [where w = "first_exit ''on-failure'' 1" and t = 1 and code = 1 and e = "exits 1"
       and ?e1.0 = "exits 1" and ?e2.0 = "exits 1" and ?e3.0 = "launch_ok 8" and h = 8
       and m = "\<lparr>m_name = ''job'', m_cmd = [''python3'', ''job.py''],
                  m_policy = ''on-failure'', m_pc = Check2 1 False\<rparr>"
       and r = "\<lparr>process = Some 7, thread = Some 1, status = Some ''running'',
                  start_time = Some 100, output_buf = Some [], returncode = Some 1,
                  policy = Some ''on-failure'', should_stop = Some False,
                  subscribers = Some []\<rparr>"]
    restart_policy
    [where w = "first_exit ''on-failure'' 0" and t = 1 and code = 0 and e = "exits 0"
       and es = "[launch_ok 8, launch_ok 8]"
       and m = "\<lparr>m_name = ''job'', m_cmd = [''python3'', ''job.py''],
                  m_policy = ''on-failure'', m_pc = Check2 0 False\<rparr>"
       and r = "\<lparr>process = Some 7, thread = Some 1, status = Some ''running'',
                  start_time = Some 100, output_buf = Some [], returncode = Some 0,
                  policy = Some ''on-failure'', should_stop = Some False,
                  subscribers = Some []\<rparr>"]
  by (simp add: first_exit_eval spec_relaunch_def spec_status_after_exit_def model_defs)

section \<open>Launching a child\<close>


text \<open>
  C1, as the claim states it, fails: with the policy \<open>always\<close>, \<open>Popen\<close> raises at the
  first launch; the exception leaves \<open>monitor_script\<close>, the entry has no status (not
  \<open>error\<close>), nothing was slept or launched, and later steps of the thread do nothing.
\<close>

theorem launch_failure_counterexample:
  "pc_of 1 (before_launch ''always'') = Some (Check1 False) \<and>
   pc_of 1 failed_launch = Some (Crashed (OSError ''No such file or directory'')) \<and>
   get_key status failed_launch ''job'' = None \<and>
   effects failed_launch = [] \<and>
   monitor_run 1 [launch_ok 7, exits 0, exits 0] failed_launch = failed_launch"
  by (simp add: failed_launch_def before_launch_eval model_defs)

text \<open>
  C1, amended. A launch failure is not caught: when \<open>Popen\<close> raises, the exception ends
  the loop at that launch attempt. The registry, the queues and the effects are as they
  were before the attempt (the status is not set to \<open>error\<close>), no restart policy is
  applied, and no later step of the thread does anything.
\<close>

theorem launch_failure_ends_loop:
  assumes "threads w t = Some m" and "m_pc m = Check1 False" and "env_popen e = Inl x"
  shows "pc_of t (monitor_step t e w) = Some (Crashed x) \<and>
    processes (monitor_step t e w) = processes w \<and>
    queues (monitor_step t e w) = queues w \<and>
    effects (monitor_step t e w) = effects w \<and>
    monitor_run t es (monitor_step t e w) = monitor_step t e w"
proof -
  have st: "monitor_step t e w = w\<lparr>threads := (threads w)(t \<mapsto> m\<lparr>m_pc := Crashed x\<rparr>)\<rparr>"
    using assms by (rule step_popen_raises)
  have "threads (monitor_step t e w) t = Some (m\<lparr>m_pc := Crashed x\<rparr>)"
    by (simp add: st)
  then have "monitor_run t es (monitor_step t e w) = monitor_step t e w"
    by (rule monitor_run_finished) simp
  then show ?thesis by (simp add: st pc_of_def)
qed

theorem launch_failure_ends_loop_witness:
  "pc_of 1 (before_launch ''always'') = Some (Check1 False) \<and>
   env_popen launch_fails = Inl (OSError ''No such file or directory'') \<and>
   pc_of 1 (monitor_step 1 launch_fails (before_launch ''always''))
     = Some (Crashed (OSError ''No such file or directory'')) \<and>
   processes (monitor_step 1 launch_fails (before_launch ''always''))
     = processes (before_launch ''always'') \<and>
   effects (monitor_step 1 launch_fails (before_launch ''always'')) = [] \<and>
   monitor_run 1 [launch_ok 7] (monitor_step 1 launch_fails (before_launch ''always''))
     = monitor_step 1 launch_fails (before_launch ''always'')"
  using launch_failure_ends_loop
    [where w = "before_launch ''always''" and t = 1 and e = launch_fails
       and x = "OSError ''No such file or directory''" and es = "[launch_ok 7]"
       and m = "\<lparr>m_name = ''job'', m_cmd = [''python3'', ''job.py''],
                  m_policy = ''always'', m_pc = Check1 False\<rparr>"]
  by (simp add: before_launch_eval pc_of_def launch_fails_def os_env_def)

section \<open>Publishing lines to the subscribers\<close>


lemma deliver_apply:
  "distinct subs \<Longrightarrow>
   deliver subs line qs q =
     (if q \<in> set subs
      then (case put_nowait line (qs q) of Inl e \<Rightarrow> qs q | Inr q' \<Rightarrow> q')
      else qs q)"
proof (induction subs arbitrary: qs)
  case Nil
  show ?case by simp
next
  case (Cons s subs)
  then show ?case by (auto split: sum.splits)
qed

lemma deliver_maxsize: "maxsize (deliver subs line qs q) = maxsize (qs q)"
proof (induction subs arbitrary: qs)
  case Nil
  show ?case by simp
next
  case (Cons s subs)
  show ?case by (auto simp: Cons.IH put_nowait_def split: sum.splits if_splits)
qed

lemma deliver_items:
  "distinct subs \<Longrightarrow> q \<in> set subs \<Longrightarrow> maxsize (qs q) = int c \<Longrightarrow> 0 < c \<Longrightarrow>
   items (deliver subs line qs q) = items (qs q) @ take (c - length (items (qs q))) [line]"
  by (auto simp: deliver_apply put_nowait_def)

lemma broadcast_all_processes: "processes (broadcast_all n ls w) = processes w"
  by (induction ls arbitrary: w) (simp_all add: broadcast_line_def)

lemma broadcast_all_items:
  "distinct (snapshot_subs (processes w) n) \<Longrightarrow> q \<in> set (snapshot_subs (processes w) n) \<Longrightarrow>
   maxsize (queues w q) = int c \<Longrightarrow> 0 < c \<Longrightarrow>
   items (queues (broadcast_all n ls w) q)
     = items (queues w q) @ take (c - length (items (queues w q))) ls"
proof (induction ls arbitrary: w)
  case Nil
  show ?case by simp
next
  case (Cons l ls)
  let ?w = "broadcast_line n l w"
  have p: "processes ?w = processes w" by (simp add: broadcast_line_def)
  have m: "maxsize (queues ?w q) = int c"
    using Cons.prems(3) by (simp add: broadcast_line_def deliver_maxsize)
  have i: "items (queues ?w q) = items (queues w q) @ take (c - length (items (queues w q))) [l]"
    using Cons.prems by (simp add: broadcast_line_def deliver_items)
  have "items (queues (broadcast_all n ls ?w) q)
     = items (queues ?w q) @ take (c - length (items (queues ?w q))) ls"
    using Cons.prems p m by (intro Cons.IH) simp_all
  then show ?case
    by (cases "length (items (queues w q)) < c") (simp_all add: i take_Cons')
qed


lemma snapshot_subs_output:
  "processes w n = Some r \<Longrightarrow>
   snapshot_subs ((processes w)(n \<mapsto> r\<lparr>output_buf := v\<rparr>)) n = snapshot_subs (processes w) n"
  by (simp add: snapshot_subs_def info_of_def)

lemma broadcast_all_queues_cong:
  "snapshot_subs (processes w) n = snapshot_subs (processes w') n \<Longrightarrow> queues w = queues w' \<Longrightarrow>
   queues (broadcast_all n ls w) = queues (broadcast_all n ls w')"
proof (induction ls arbitrary: w w')
  case Nil
  then show ?case by simp
next
  case (Cons l ls)
  show ?case
    unfolding broadcast_all.simps
    by (rule Cons.IH) (simp_all add: Cons.prems broadcast_line_def)
qed

lemma produce_one:
  assumes "threads w t = Some m" and "m_pc m = Reading h"
    and "processes w (m_name m) = Some r" and "output_buf r = Some out"
    and "env_readline e1 = Inr (Some l)"
  shows "monitor_run t [e1, e2, e3] w =
     w\<lparr>processes := (processes w)(m_name m \<mapsto> r\<lparr>output_buf := Some (append_output out l)\<rparr>),
       queues := deliver (snapshot_subs (processes w) (m_name m)) l (queues w)\<rparr>"
proof -
  let ?P = "(processes w)(m_name m \<mapsto> r\<lparr>output_buf := Some (append_output out l)\<rparr>)"
  let ?w1 = "w\<lparr>processes := ?P, threads := (threads w)(t \<mapsto> m\<lparr>m_pc := Broadcast h l\<rparr>)\<rparr>"
  let ?subs = "snapshot_subs (processes w) (m_name m)"
  let ?w2 = "w\<lparr>processes := ?P, threads := (threads w)(t \<mapsto> m\<lparr>m_pc := Deliver h ?subs l\<rparr>)\<rparr>"
  have s1: "monitor_step t e1 w = ?w1"
    using assms by (simp add: monitor_step_def)
  have s2: "monitor_step t e2 ?w1 = ?w2"
    using assms(3) by (simp add: monitor_step_def snapshot_subs_output)
  have s3: "monitor_step t e3 ?w2 =
     w\<lparr>processes := ?P, queues := deliver ?subs l (queues w),
       threads := (threads w)(t \<mapsto> m\<lparr>m_pc := Reading h\<rparr>)\<rparr>"
    by (simp add: monitor_step_def)
  have "(threads w)(t \<mapsto> m\<lparr>m_pc := Reading h\<rparr>) = threads w"
    using assms(1,2) by (simp add: monitor_keeps_pc map_upd_triv)
  then show ?thesis by (simp add: s1 s2 s3)
qed

lemma produce_eq:
  assumes "threads w t = Some m" and "m_pc m = Reading h"
    and "processes w (m_name m) = Some r" and "output_buf r = Some out"
  shows "produce t ls w =
     w\<lparr>processes := (processes w)(m_name m \<mapsto> r\<lparr>output_buf := Some (append_lines out ls)\<rparr>),
       queues := queues (broadcast_all (m_name m) ls w)\<rparr>"
  using assms
proof (induction ls arbitrary: w r out)
  case Nil
  then have "(processes w)(m_name m \<mapsto> r\<lparr>output_buf := Some out\<rparr>) = processes w"
    by (simp add: map_upd_triv)
  then show ?case by (simp add: append_lines_def)
next
  case (Cons l ls)
  let ?e = "\<lparr>env_popen = Inr 0, env_time = 0, env_readline = Inr (Some l), env_returncode = 0\<rparr>"
  let ?r1 = "r\<lparr>output_buf := Some (append_output out l)\<rparr>"
  let ?w1 = "w\<lparr>processes := (processes w)(m_name m \<mapsto> ?r1),
               queues := deliver (snapshot_subs (processes w) (m_name m)) l (queues w)\<rparr>"
  have one: "monitor_run t [?e, ?e, ?e] w = ?w1"
    using Cons.prems by (intro produce_one) simp_all
  have ih: "produce t ls ?w1 =
     ?w1\<lparr>processes := (processes ?w1)(m_name m \<mapsto> ?r1\<lparr>output_buf := Some (append_lines (append_output out l) ls)\<rparr>),
         queues := queues (broadcast_all (m_name m) ls ?w1)\<rparr>"
    using Cons.prems by (intro Cons.IH) simp_all
  have q: "queues (broadcast_all (m_name m) ls ?w1)
       = queues (broadcast_all (m_name m) ls (broadcast_line (m_name m) l w))"
    using Cons.prems(3)
    by (intro broadcast_all_queues_cong) (simp_all add: broadcast_line_def snapshot_subs_output)
  have "produce t (l # ls) w = produce t ls ?w1"
    using one by (simp del: monitor_run.simps)
  also note ih
  also have "?w1\<lparr>processes := (processes ?w1)(m_name m \<mapsto> ?r1\<lparr>output_buf := Some (append_lines (append_output out l) ls)\<rparr>),
         queues := queues (broadcast_all (m_name m) ls ?w1)\<rparr>
     = w\<lparr>processes := (processes w)(m_name m \<mapsto> r\<lparr>output_buf := Some (append_lines out (l # ls))\<rparr>),
         queues := queues (broadcast_all (m_name m) (l # ls) w)\<rparr>"
    by (simp add: q append_lines_def)
  finally show ?case .
qed

section \<open>The exit code while a child runs\<close>

text \<open>
  C5, as the claim states it, fails: after a child has exited with the code 1 under the
  policy \<open>always\<close> and the loop has launched the next child, the status is \<open>running\<close> and
  the stored exit code is still 1.
\<close>

theorem running_with_exit_code_counterexample:
  "get_key status second_launch ''job'' = Some ''running'' \<and>
   get_key returncode second_launch ''job'' = Some 1"
  by (simp add: second_launch_eval get_key_def info_of_def)

text \<open>
  C5, amended. At every launch the loop takes the clock, and when \<open>Popen\<close> has returned
  a handle it stores the handle, sets the status to \<open>running\<close> and stores that start
  time in one block; the output buffer is kept (created empty when missing) and the
  stored exit code is not cleared. The launch and the reading of the lines of the child
  leave the stored exit code and the status of every name as they are; when the child
  has exited, the loop stores the exit code of this child and leaves the status as it
  is. So the status \<open>running\<close> does not imply that there is no exit code.
\<close>

theorem launch_records:
  "(threads w t = Some m \<and> m_pc m = Check1 False \<and> env_popen e = Inr h \<longrightarrow>
      pc_of t (monitor_step t e w) = Some (Launched h (env_time e)) \<and>
      processes (monitor_step t e w) = processes w) \<and>
   (threads w' t' = Some m' \<and> m_pc m' = Launched h' ts \<and> processes w' (m_name m') = Some r \<longrightarrow>
      get_key process (monitor_step t' e' w') (m_name m') = Some h' \<and>
      get_key status (monitor_step t' e' w') (m_name m') = Some ''running'' \<and>
      get_key start_time (monitor_step t' e' w') (m_name m') = Some ts \<and>
      get_key output_buf (monitor_step t' e' w') (m_name m') = Some (get_or [] (output_buf r)) \<and>
      get_key returncode (monitor_step t' e' w') (m_name m') = returncode r \<and>
      pc_of t' (monitor_step t' e' w') = Some (Reading h')) \<and>
   (threads w1 t1 = Some m1 \<and> m_pc m1 = Reading h1 \<and> processes w1 (m_name m1) = Some r1 \<and>
    output_buf r1 = Some out \<longrightarrow>
      get_key returncode (produce t1 ls w1) k = get_key returncode w1 k \<and>
      get_key status (produce t1 ls w1) k = get_key status w1 k \<and>
      pc_of t1 (produce t1 ls w1) = Some (Reading h1)) \<and>
   (threads w2 t2 = Some m2 \<and> m_pc m2 = Reading h2 \<and> processes w2 (m_name m2) = Some r2 \<and>
    env_readline e2 = Inr None \<longrightarrow>
      get_key returncode (monitor_step t2 e2 w2) (m_name m2) = Some (env_returncode e2) \<and>
      get_key status (monitor_step t2 e2 w2) (m_name m2) = status r2 \<and>
      pc_of t2 (monitor_step t2 e2 w2) = Some (Recheck (env_returncode e2)))"
proof (intro conjI impI)
  assume "threads w t = Some m \<and> m_pc m = Check1 False \<and> env_popen e = Inr h"
  then have st: "monitor_step t e w =
     w\<lparr>effects := effects w @ [Popen (m_cmd m) h],
       threads := (threads w)(t \<mapsto> m\<lparr>m_pc := Launched h (env_time e)\<rparr>)\<rparr>"
    by (intro step_popen_ok) auto
  show "pc_of t (monitor_step t e w) = Some (Launched h (env_time e))"
    by (simp add: st pc_of_def)
  show "processes (monitor_step t e w) = processes w"
    by (simp add: st)
next
  assume "threads w' t' = Some m' \<and> m_pc m' = Launched h' ts \<and> processes w' (m_name m') = Some r"
  then have st: "monitor_step t' e' w' =
     w'\<lparr>processes := (processes w')(m_name m' \<mapsto>
          r\<lparr>process := Some h', status := Some ''running'', start_time := Some ts,
            output_buf := Some (get_or [] (output_buf r))\<rparr>),
       threads := (threads w')(t' \<mapsto> m'\<lparr>m_pc := Reading h'\<rparr>)\<rparr>"
    by (intro step_launched) auto
  show "get_key process (monitor_step t' e' w') (m_name m') = Some h'"
    and "get_key status (monitor_step t' e' w') (m_name m') = Some ''running''"
    and "get_key start_time (monitor_step t' e' w') (m_name m') = Some ts"
    and "get_key output_buf (monitor_step t' e' w') (m_name m') = Some (get_or [] (output_buf r))"
    and "get_key returncode (monitor_step t' e' w') (m_name m') = returncode r"
    and "pc_of t' (monitor_step t' e' w') = Some (Reading h')"
    by (simp_all add: st get_key_def info_of_def pc_of_def)
next
  assume h: "threads w1 t1 = Some m1 \<and> m_pc m1 = Reading h1 \<and>
    processes w1 (m_name m1) = Some r1 \<and> output_buf r1 = Some out"
  then have eq: "produce t1 ls w1 =
     w1\<lparr>processes := (processes w1)(m_name m1 \<mapsto> r1\<lparr>output_buf := Some (append_lines out ls)\<rparr>),
        queues := queues (broadcast_all (m_name m1) ls w1)\<rparr>"
    by (intro produce_eq) auto
  show "get_key returncode (produce t1 ls w1) k = get_key returncode w1 k"
    and "get_key status (produce t1 ls w1) k = get_key status w1 k"
    using h by (simp_all add: eq get_key_def info_of_def)
  show "pc_of t1 (produce t1 ls w1) = Some (Reading h1)"
    using h by (simp add: eq pc_of_def)
next
  assume h: "threads w2 t2 = Some m2 \<and> m_pc m2 = Reading h2 \<and>
    processes w2 (m_name m2) = Some r2 \<and> env_readline e2 = Inr None"
  then have st: "monitor_step t2 e2 w2 =
     w2\<lparr>processes := (processes w2)(m_name m2 \<mapsto> r2\<lparr>returncode := Some (env_returncode e2)\<rparr>),
        threads := (threads w2)(t2 \<mapsto> m2\<lparr>m_pc := Recheck (env_returncode e2)\<rparr>)\<rparr>"
    by (simp add: monitor_step_def update_info_def)
  show "get_key returncode (monitor_step t2 e2 w2) (m_name m2) = Some (env_returncode e2)"
    and "get_key status (monitor_step t2 e2 w2) (m_name m2) = status r2"
    and "pc_of t2 (monitor_step t2 e2 w2) = Some (Recheck (env_returncode e2))"
    by (simp_all add: st get_key_def info_of_def pc_of_def)
qed

theorem launch_records_witness:
  "pc_of 1 (before_launch ''always'') = Some (Check1 False) \<and>
   env_popen (launch_ok 7) = Inr 7 \<and>
   pc_of 1 (monitor_step 1 (launch_ok 7) (before_launch ''always'')) = Some (Launched 7 100) \<and>
   pc_of 1 (monitor_run 1 [exits 1, exits 1, exits 1, launch_ok 8] (first_exit ''always'' 1))
     = Some (Launched 8 100) \<and>
   get_key returncode
     (monitor_run 1 [exits 1, exits 1, exits 1, launch_ok 8] (first_exit ''always'' 1)) ''job''
     = Some 1 \<and>
   get_key status
     (monitor_run 1 [exits 1, exits 1, exits 1, launch_ok 8, exits 0] (first_exit ''always'' 1)) ''job''
     = Some ''running'' \<and>
   get_key process
     (monitor_run 1 [exits 1, exits 1, exits 1, launch_ok 8, exits 0] (first_exit ''always'' 1)) ''job''
     = Some 8 \<and>
   get_key returncode
     (monitor_run 1 [exits 1, exits 1, exits 1, launch_ok 8, exits 0] (first_exit ''always'' 1)) ''job''
     = Some 1 \<and>
   pc_of 1 second_launch = Some (Reading 8) \<and>
   get_key status (produce 1 [''a'', ''b''] second_launch) ''job'' = Some ''running'' \<and>
   get_key returncode (produce 1 [''a'', ''b''] second_launch) ''job'' = Some 1 \<and>
   pc_of 1 (first_launch ''never'') = Some (Reading 7) \<and>
   env_readline (exits 3) = Inr None \<and>
   get_key returncode (first_launch ''never'') ''job'' = None \<and>
   get_key status (monitor_step 1 (exits 3) (first_launch ''never'')) ''job'' = Some ''running'' \<and>
   get_key returncode (monitor_step 1 (exits 3) (first_launch ''never'')) ''job'' = Some 3"
  using launch_records
    [where w = "before_launch ''always''" and t = 1 and e = "launch_ok 7" and h = 7
       and m = "\<lparr>m_name = ''job'', m_cmd = [''python3'', ''job.py''],
                  m_policy = ''always'', m_pc = Check1 False\<rparr>"
       and w' = "monitor_run 1 [exits 1, exits 1, exits 1, launch_ok 8] (first_exit ''always'' 1)"
       and t' = 1 and e' = "exits 0" and h' = 8 and ts = 100
       and m' = "\<lparr>m_name = ''job'', m_cmd = [''python3'', ''job.py''],
                  m_policy = ''always'', m_pc = Launched 8 100\<rparr>"
       and r = "\<lparr>process = Some 7, thread = Some 1, status = Some ''error'',
                  start_time = Some 100, output_buf = Some [], returncode = Some 1,
                  policy = Some ''always'', should_stop = Some False, subscribers = Some []\<rparr>"
       and ?w1.0 = second_launch and ?t1.0 = 1 and ?h1.0 = 8 and out = "[]"
       and ls = "[''a'', ''b'']" and k = "''job''"
       and ?m1.0 = "\<lparr>m_name = ''job'', m_cmd = [''python3'', ''job.py''],
                  m_policy = ''always'', m_pc = Reading 8\<rparr>"
       and ?r1.0 = "\<lparr>process = Some 8, thread = Some 1, status = Some ''running'',
                  start_time = Some 100, output_buf = Some [], returncode = Some 1,
                  policy = Some ''always'', should_stop = Some False, subscribers = Some []\<rparr>"
       and ?w2.0 = "first_launch ''never''" and ?t2.0 = 1 and ?h2.0 = 7 and ?e2.0 = "exits 3"
       and ?m2.0 = "\<lparr>m_name = ''job'', m_cmd = [''python3'', ''job.py''],
                  m_policy = ''never'', m_pc = Reading 7\<rparr>"
       and ?r2.0 = "\<lparr>process = Some 7, thread = Some 1, status = Some ''running'',
                  start_time = Some 100, output_buf = Some [], returncode = None,
                  policy = Some ''never'', should_stop = Some False, subscribers = Some []\<rparr>"]
  by (simp add: before_launch_eval first_exit_eval first_launch_eval second_launch_eval model_defs)

section \<open>The subscribers are listed without duplicates\<close>

lemma mon_step_subscribers:
  "snapshot_subs (processes (snd (mon_step e n cmd pol p w))) k = snapshot_subs (processes w) k"
  by (cases "(e, n, cmd, pol, p, w)" rule: mon_step.cases)
     (auto simp: snapshot_subs_def info_of_def update_info_def split: option.splits sum.splits)

lemma monitor_step_subscribers:
  "snapshot_subs (processes (monitor_step t e w)) k = snapshot_subs (processes w) k"
proof (cases "threads w t")
  case None
  then show ?thesis by (simp add: monitor_step_def)
next
  case (Some m)
  obtain p' w' where st: "mon_step e (m_name m) (m_cmd m) (m_policy m) (m_pc m) w = (p', w')"
    by (cases "mon_step e (m_name m) (m_cmd m) (m_policy m) (m_pc m) w")
  have "snapshot_subs (processes w') k = snapshot_subs (processes w) k"
    using mon_step_subscribers [of e "m_name m" "m_cmd m" "m_policy m" "m_pc m" w k] st by simp
  then show ?thesis using Some st by (simp add: monitor_step_def)
qed

lemma init_entries_subscribers:
  "snapshot_subs (init_entries scripts procs) k = snapshot_subs procs k"
proof (induction scripts arbitrary: procs)
  case Nil
  show ?case by simp
next
  case (Cons a scripts)
  obtain n meta where a: "a = (n, meta)" by (cases a)
  show ?case
  proof (cases "procs n")
    case None
    define new where "new = empty_info\<lparr>status := Some ''stopped'',
                     policy := Some (get_or ''on-failure'' (cfg_policy meta)),
                     subscribers := Some [], should_stop := Some False\<rparr>"
    have e: "init_entries (a # scripts) procs = init_entries scripts (procs(n \<mapsto> new))"
      using a None by (simp add: new_def)
    have "snapshot_subs (init_entries scripts (procs(n \<mapsto> new))) k
        = snapshot_subs (procs(n \<mapsto> new)) k"
      by (rule Cons.IH)
    also have "\<dots> = snapshot_subs procs k"
      using None by (simp add: snapshot_subs_def info_of_def new_def empty_info_def get_or_def)
    finally show ?thesis by (simp only: e)
  next
    case (Some r)
    have "init_entries (a # scripts) procs = init_entries scripts procs"
      using a Some by simp
    then show ?thesis by (simp only: Cons.IH)
  qed
qed

lemma apply_action_distinct:
  assumes "\<And>n. distinct (snapshot_subs (processes w) n)"
  shows "distinct (snapshot_subs (processes (apply_action scripts a w)) k)"
proof (cases a)
  case (Monitor t e)
  then show ?thesis using assms by (simp add: monitor_step_subscribers)
next
  case (Start n t)
  have "snapshot_subs (processes (snd (start_script scripts n t w))) k = snapshot_subs (processes w) k"
    by (auto simp: start_script_def start_reset_def update_info_def snapshot_subs_def info_of_def
          get_or_def empty_info_def Let_def split: option.splits sum.splits)
  then show ?thesis using Start assms by simp
next
  case (Stop n e)
  have "snapshot_subs (processes (snd (stop_script n e w))) k = snapshot_subs (processes w) k"
    by (auto simp: stop_script_def stop_terminate_def update_info_def snapshot_subs_def info_of_def
          Let_def split: option.splits sum.splits)
  then show ?thesis using Stop assms by simp
next
  case (Subscribe n q)
  have "snapshot_subs (processes (snd (ws_subscribe n q w))) k =
      (if k = n then List.insert q (snapshot_subs (processes w) n) else snapshot_subs (processes w) k)"
    by (simp add: ws_subscribe_def snapshot_subs_def info_of_def get_or_def Let_def)
  then show ?thesis using Subscribe assms by simp
next
  case (Loop n q)
  have "snapshot_subs (processes (ws_unsubscribe n q w)) k =
      (if k = n then removeAll q (snapshot_subs (processes w) n) else snapshot_subs (processes w) k)"
    by (auto simp: ws_unsubscribe_def snapshot_subs_def info_of_def get_or_def empty_info_def
             split: option.splits)
  then show ?thesis using Loop assms by (simp add: ws_receive_loop_def distinct_removeAll)
next
  case (Unsubscribe n q)
  have "snapshot_subs (processes (ws_unsubscribe n q w)) k =
      (if k = n then removeAll q (snapshot_subs (processes w) n) else snapshot_subs (processes w) k)"
    by (auto simp: ws_unsubscribe_def snapshot_subs_def info_of_def get_or_def empty_info_def
             split: option.splits)
  then show ?thesis using Unsubscribe assms by (simp add: distinct_removeAll)
next
  case (Detail n now)
  then show ?thesis using assms by simp
next
  case Index
  then show ?thesis using assms by (simp add: index_def init_entries_subscribers Let_def)
qed

text \<open>
  In every world the service can reach, the subscribers of a name are listed without
  duplicates.
\<close>

lemma run_distinct_subscribers:
  "(\<And>n. distinct (snapshot_subs (processes w) n)) \<Longrightarrow>
   distinct (snapshot_subs (processes (run scripts as w)) k)"
proof (induction as arbitrary: w)
  case Nil
  then show ?case by simp
next
  case (Cons a as)
  show ?case
    unfolding run.simps
    by (rule Cons.IH) (rule apply_action_distinct, rule Cons.prems)
qed

lemma reachable_distinct_subscribers:
  "distinct (snapshot_subs (processes (run scripts as init_world)) k)"
  by (rule run_distinct_subscribers)
     (simp add: init_world_def snapshot_subs_def info_of_def empty_info_def get_or_def)

section \<open>The stored output tail\<close>

lemma append_lines_tail:
  "length out \<le> 20000 \<Longrightarrow> append_lines out ls = last_chars 20000 (out @ concat ls)"
proof -
  assume "length out \<le> 20000"
  then have "length (append_lines out ls) \<le> 20000"
    unfolding append_lines_def by (rule foldl_append_output_short)
  then have "last_chars 20000 (append_lines out ls) = append_lines out ls"
    by (simp add: last_chars_def)
  then show ?thesis
    using foldl_append_output [of out ls] by (simp add: append_lines_def)
qed

text \<open>
  C6. After any sequence of lines appended to an empty output buffer, the stored tail
  has at most 20000 characters and is the last 20000 characters of everything produced
  (all of it while it is shorter), so that its length is the smaller of 20000 and the
  length produced. In the loop: when a thread reads the lines \<open>ls\<close> of its child and the
  stored output was \<open>out\<close>, of at most 20000 characters, the stored output is then the
  last 20000 characters of \<open>out\<close> followed by the lines.
\<close>

theorem output_tail_bounded:
  "length (append_lines [] ls) \<le> 20000 \<and>
   append_lines [] ls = last_chars 20000 (concat ls) \<and>
   length (append_lines [] ls) = min 20000 (length (concat ls)) \<and>
   (threads w t = Some m \<and> m_pc m = Reading h \<and> processes w (m_name m) = Some r \<and>
    output_buf r = Some out \<and> length out \<le> 20000 \<longrightarrow>
      get_key output_buf (produce t ls w) (m_name m)
        = Some (last_chars 20000 (out @ concat ls)) \<and>
      length (last_chars 20000 (out @ concat ls)) \<le> 20000)"
proof (intro conjI impI)
  have eq: "append_lines [] ls = last_chars 20000 (concat ls)"
    using append_lines_tail [of "[]" ls] by simp
  show "append_lines [] ls = last_chars 20000 (concat ls)"
    by (rule eq)
  show "length (append_lines [] ls) \<le> 20000"
    and "length (append_lines [] ls) = min 20000 (length (concat ls))"
    by (simp_all add: eq last_chars_length)
next
  assume h: "threads w t = Some m \<and> m_pc m = Reading h \<and> processes w (m_name m) = Some r \<and>
    output_buf r = Some out \<and> length out \<le> 20000"
  then have "produce t ls w =
     w\<lparr>processes := (processes w)(m_name m \<mapsto> r\<lparr>output_buf := Some (append_lines out ls)\<rparr>),
       queues := queues (broadcast_all (m_name m) ls w)\<rparr>"
    by (intro produce_eq) auto
  then have "get_key output_buf (produce t ls w) (m_name m) = Some (append_lines out ls)"
    by (simp add: get_key_def info_of_def)
  then show "get_key output_buf (produce t ls w) (m_name m)
        = Some (last_chars 20000 (out @ concat ls))"
    using h by (simp add: append_lines_tail)
  show "length (last_chars 20000 (out @ concat ls)) \<le> 20000"
    by (simp add: last_chars_length)
qed

theorem output_tail_bounded_witness:
  "pc_of 1 (first_launch ''never'') = Some (Reading 7) \<and>
   get_key output_buf (first_launch ''never'') ''job'' = Some [] \<and>
   length (concat [replicate 30000 CHR ''a'', replicate 20000 CHR ''b'']) = 50000 \<and>
   get_key output_buf
     (produce 1 [replicate 30000 CHR ''a'', replicate 20000 CHR ''b''] (first_launch ''never''))
     ''job'' = Some (replicate 20000 CHR ''b'')"
  using output_tail_bounded
    [where w = "first_launch ''never''" and t = 1 and h = 7 and out = "[]"
       and ls = "[replicate 30000 CHR ''a'', replicate 20000 CHR ''b'']"
       and m = "\<lparr>m_name = ''job'', m_cmd = [''python3'', ''job.py''], m_policy = ''never'',
                  m_pc = Reading 7\<rparr>"
       and r = "\<lparr>process = Some 7, thread = Some 1, status = Some ''running'',
                  start_time = Some 100, output_buf = Some [], returncode = None,
                  policy = Some ''never'', should_stop = Some False, subscribers = Some []\<rparr>"]
  by (simp add: first_launch_eval last_chars_def get_key_def info_of_def pc_of_def)

section \<open>Delivery to the subscribers\<close>

text \<open>
  C7. \<open>_broadcast_line\<close> takes the subscribers of the name as they are when it holds the
  lock and delivers to exactly these queues, whatever the registry has become when it
  delivers: a queue of the snapshot that is not full gets the line at its end, a full
  one is left as it is, and every other queue is untouched. Neither half raises or
  waits: the loop is back at reading its child after them. The registry, the threads
  and the effects are not changed by the delivery.
\<close>

theorem broadcast_line_delivery:
  assumes "distinct (snapshot_subs (processes w) n)"
  shows "mon_step e n cmd pol (Broadcast h line) w
           = (Deliver h (snapshot_subs (processes w) n) line, w) \<and>
    fst (mon_step e' n cmd pol (Deliver h (snapshot_subs (processes w) n) line) w') = Reading h \<and>
    processes (snd (mon_step e' n cmd pol (Deliver h (snapshot_subs (processes w) n) line) w'))
      = processes w' \<and>
    threads (snd (mon_step e' n cmd pol (Deliver h (snapshot_subs (processes w) n) line) w'))
      = threads w' \<and>
    effects (snd (mon_step e' n cmd pol (Deliver h (snapshot_subs (processes w) n) line) w'))
      = effects w' \<and>
    queues (snd (mon_step e' n cmd pol (Deliver h (snapshot_subs (processes w) n) line) w')) q
      = (if q \<in> set (snapshot_subs (processes w) n)
         then if 0 < maxsize (queues w' q) \<and> maxsize (queues w' q) \<le> int (length (items (queues w' q)))
              then queues w' q
              else (queues w' q)\<lparr>items := items (queues w' q) @ [line]\<rparr>
         else queues w' q) \<and>
    processes (broadcast_line n line w) = processes w \<and>
    queues (broadcast_line n line w) q
      = (if q \<in> set (snapshot_subs (processes w) n)
         then if 0 < maxsize (queues w q) \<and> maxsize (queues w q) \<le> int (length (items (queues w q)))
              then queues w q
              else (queues w q)\<lparr>items := items (queues w q) @ [line]\<rparr>
         else queues w q)"
  using assms by (simp add: deliver_apply put_nowait_def broadcast_line_def)

lemma slow_subscriber_eval:
  "slow_subscriber =
     \<lparr>processes = [''job'' \<mapsto> \<lparr>process = Some 7, thread = Some 1, status = Some ''running'',
                      start_time = Some 100, output_buf = Some [], returncode = None,
                      policy = Some ''never'', should_stop = Some False, subscribers = Some [6, 5]\<rparr>],
      queues = (\<lambda>q. if q = 6 then \<lparr>maxsize = 1000, items = replicate 1000 ''old''\<rparr>
                        else \<lparr>maxsize = 1000, items = []\<rparr>),
      threads = [1 \<mapsto> \<lparr>m_name = ''job'', m_cmd = [''python3'', ''job.py''], m_policy = ''never'',
                       m_pc = Reading 7\<rparr>],
      effects = [Popen [''python3'', ''job.py''] 7]\<rparr>"
  by (simp add: slow_subscriber_def first_launch_eval model_defs)

theorem broadcast_line_delivery_witness:
  "distinct (snapshot_subs (processes slow_subscriber) ''job'') \<and>
   set (snapshot_subs (processes slow_subscriber) ''job'') = {5, 6} \<and>
   items (queues (broadcast_line ''job'' ''new'' slow_subscriber) 5) = [''new''] \<and>
   items (queues (broadcast_line ''job'' ''new'' slow_subscriber) 6) = replicate 1000 ''old'' \<and>
   items (queues (broadcast_line ''job'' ''new'' slow_subscriber) 9) = []"
  using broadcast_line_delivery [where w = slow_subscriber and n = "''job''" and line = "''new''" and q = 5]
    broadcast_line_delivery [where w = slow_subscriber and n = "''job''" and line = "''new''" and q = 6]
    broadcast_line_delivery [where w = slow_subscriber and n = "''job''" and line = "''new''" and q = 9]
  by (simp add: slow_subscriber_eval snapshot_subs_def info_of_def get_or_def insert_commute)

section \<open>Subscribing to the output\<close>


lemma long_line_eval:
  "long_line =
     \<lparr>processes = [''job'' \<mapsto> \<lparr>process = Some 7, thread = Some 1, status = Some ''running'',
                      start_time = Some 100, output_buf = Some (replicate 2001 CHR ''x''),
                      returncode = None, policy = Some ''never'', should_stop = Some False,
                      subscribers = Some []\<rparr>],
      queues = (\<lambda>q. \<lparr>maxsize = 1000, items = []\<rparr>),
      threads = [1 \<mapsto> \<lparr>m_name = ''job'', m_cmd = [''python3'', ''job.py''], m_policy = ''never'',
                       m_pc = Reading 7\<rparr>],
      effects = [Popen [''python3'', ''job.py''] 7]\<rparr>"
  by (simp add: long_line_def first_launch_eval model_defs)

lemma subscribed_late_eval:
  "ws_subscribe ''job'' 5 long_line =
     (replicate 2000 CHR ''x'',
      \<lparr>processes = [''job'' \<mapsto> \<lparr>process = Some 7, thread = Some 1, status = Some ''running'',
                      start_time = Some 100, output_buf = Some (replicate 2001 CHR ''x''),
                      returncode = None, policy = Some ''never'', should_stop = Some False,
                      subscribers = Some [5]\<rparr>],
      queues = (\<lambda>q. \<lparr>maxsize = 1000, items = []\<rparr>),
      threads = [1 \<mapsto> \<lparr>m_name = ''job'', m_cmd = [''python3'', ''job.py''], m_policy = ''never'',
                       m_pc = Reading 7\<rparr>],
      effects = [Popen [''python3'', ''job.py''] 7, SendText 5 (replicate 2000 CHR ''x'')]\<rparr>)"
  by (auto simp add: long_line_eval model_defs)


lemma produce_items:
  assumes "threads w t = Some m" and "m_pc m = Reading h"
    and "processes w (m_name m) = Some r" and "output_buf r = Some out"
    and "distinct (snapshot_subs (processes w) (m_name m))"
    and "q \<in> set (snapshot_subs (processes w) (m_name m))"
    and "maxsize (queues w q) = 1000"
  shows "items (queues (produce t ls w) q)
           = items (queues w q) @ take (1000 - length (items (queues w q))) ls"
    and "get_key output_buf (produce t ls w) (m_name m) = Some (append_lines out ls)"
proof -
  have eq: "produce t ls w =
     w\<lparr>processes := (processes w)(m_name m \<mapsto> r\<lparr>output_buf := Some (append_lines out ls)\<rparr>),
       queues := queues (broadcast_all (m_name m) ls w)\<rparr>"
    using assms(1-4) by (rule produce_eq)
  have "items (queues (broadcast_all (m_name m) ls w) q)
     = items (queues w q) @ take (1000 - length (items (queues w q))) ls"
    using assms(5-7) by (intro broadcast_all_items) simp_all
  then show "items (queues (produce t ls w) q)
           = items (queues w q) @ take (1000 - length (items (queues w q))) ls"
    by (simp add: eq)
  show "get_key output_buf (produce t ls w) (m_name m) = Some (append_lines out ls)"
    by (simp add: eq get_key_def info_of_def)
qed

text \<open>
  C8, as the claim states it, fails. A client subscribes when the stored output has 2001
  characters: it is sent the last 2000 of them, not the stored tail. Then the child
  prints 1001 lines while the queue is among the subscribers: the queue holds the
  first 1000 of them, the last one was dropped.
\<close>

theorem subscribe_counterexample:
  "get_key output_buf long_line ''job'' = Some (replicate 2001 CHR ''x'') \<and>
   fst (ws_subscribe ''job'' 5 long_line) = replicate 2000 CHR ''x'' \<and>
   items (queues (produce 1 (replicate 1001 ''y'') (snd (ws_subscribe ''job'' 5 long_line))) 5)
     = replicate 1000 ''y''"
proof -
  let ?w = "snd (ws_subscribe ''job'' 5 long_line)"
  have "items (queues (produce 1 (replicate 1001 ''y'') ?w) 5)
     = items (queues ?w 5) @ take (1000 - length (items (queues ?w 5))) (replicate 1001 ''y'')"
    by (rule produce_items(1)
        [where m = "\<lparr>m_name = ''job'', m_cmd = [''python3'', ''job.py''], m_policy = ''never'',
                       m_pc = Reading 7\<rparr>"
           and h = 7 and out = "replicate 2001 CHR ''x''"
           and r = "\<lparr>process = Some 7, thread = Some 1, status = Some ''running'',
                      start_time = Some 100, output_buf = Some (replicate 2001 CHR ''x''),
                      returncode = None, policy = Some ''never'', should_stop = Some False,
                      subscribers = Some [5]\<rparr>"])
       (simp_all add: subscribed_late_eval snapshot_subs_def info_of_def get_or_def)
  then show ?thesis
    by (simp add: subscribed_late_eval) (simp add: long_line_eval get_key_def info_of_def)
qed

text \<open>
  C8, amended. \<open>ws_logs\<close> registers the new queue and reads the tail in one lock block;
  the tail it sends is the last 2000 characters of the stored output (nothing when the
  output is empty), and the new queue is empty with room for 1000 lines. While the loop
  publishes lines with the queue among the subscribers, the
  queue receives them in the order of production, each once, up to 1000 waiting lines;
  a line that finds 1000 lines waiting is dropped for this subscriber.
\<close>

theorem subscribe_tail_then_lines:
  "(fst (ws_subscribe n q w) = last_chars 2000 (get_or [] (get_key output_buf w n)) \<and>
    q \<in> set (snapshot_subs (processes (snd (ws_subscribe n q w))) n) \<and>
    queues (snd (ws_subscribe n q w)) q = \<lparr>maxsize = 1000, items = []\<rparr> \<and>
    effects (snd (ws_subscribe n q w))
      = effects w @ (if fst (ws_subscribe n q w) \<noteq> [] then [SendText q (fst (ws_subscribe n q w))]
                     else [])) \<and>
   (threads w1 t = Some m \<and> m_pc m = Reading h \<and> processes w1 (m_name m) = Some r \<and>
    output_buf r = Some out \<and> distinct (snapshot_subs (processes w1) (m_name m)) \<and>
    q1 \<in> set (snapshot_subs (processes w1) (m_name m)) \<and> maxsize (queues w1 q1) = 1000 \<longrightarrow>
      items (queues (produce t ls w1) q1)
        = items (queues w1 q1) @ take (1000 - length (items (queues w1 q1))) ls \<and>
      get_key output_buf (produce t ls w1) (m_name m) = Some (append_lines out ls))"
proof (intro conjI impI)
  show "fst (ws_subscribe n q w) = last_chars 2000 (get_or [] (get_key output_buf w n))"
    by (simp add: ws_subscribe_def get_key_def Let_def)
  show "q \<in> set (snapshot_subs (processes (snd (ws_subscribe n q w))) n)"
    by (simp add: ws_subscribe_def snapshot_subs_def info_of_def get_or_def Let_def)
  show "queues (snd (ws_subscribe n q w)) q = \<lparr>maxsize = 1000, items = []\<rparr>"
    by (simp add: ws_subscribe_def Let_def)
  show "effects (snd (ws_subscribe n q w))
      = effects w @ (if fst (ws_subscribe n q w) \<noteq> [] then [SendText q (fst (ws_subscribe n q w))]
                     else [])"
    by (simp add: ws_subscribe_def Let_def)
next
  assume h: "threads w1 t = Some m \<and> m_pc m = Reading h \<and> processes w1 (m_name m) = Some r \<and>
    output_buf r = Some out \<and> distinct (snapshot_subs (processes w1) (m_name m)) \<and>
    q1 \<in> set (snapshot_subs (processes w1) (m_name m)) \<and> maxsize (queues w1 q1) = 1000"
  show "items (queues (produce t ls w1) q1)
        = items (queues w1 q1) @ take (1000 - length (items (queues w1 q1))) ls"
    using h by (intro produce_items(1)) auto
  show "get_key output_buf (produce t ls w1) (m_name m) = Some (append_lines out ls)"
    using h by (intro produce_items(2)) auto
qed


theorem subscribe_tail_then_lines_witness:
  "fst (ws_subscribe ''job'' 5 long_line) = replicate 2000 CHR ''x'' \<and>
   pc_of 1 (snd (ws_subscribe ''job'' 5 long_line)) = Some (Reading 7) \<and>
   snapshot_subs (processes (snd (ws_subscribe ''job'' 5 long_line))) ''job'' = [5] \<and>
   queues (snd (ws_subscribe ''job'' 5 long_line)) 5 = \<lparr>maxsize = 1000, items = []\<rparr> \<and>
   effects (snd (ws_subscribe ''job'' 5 long_line))
     = [Popen [''python3'', ''job.py''] 7, SendText 5 (replicate 2000 CHR ''x'')] \<and>
   items (queues (produce 1 [''a'', ''b''] (snd (ws_subscribe ''job'' 5 long_line))) 5)
     = [''a'', ''b''] \<and>
   get_key output_buf (produce 1 [''a'', ''b''] (snd (ws_subscribe ''job'' 5 long_line))) ''job''
     = Some (replicate 2001 CHR ''x'' @ ''ab'')"
  using subscribe_tail_then_lines
    [where n = "''job''" and q = 5 and w = long_line
       and ?w1.0 = "snd (ws_subscribe ''job'' 5 long_line)" and t = 1 and h = 7
       and m = "\<lparr>m_name = ''job'', m_cmd = [''python3'', ''job.py''], m_policy = ''never'',
                  m_pc = Reading 7\<rparr>"
       and r = "\<lparr>process = Some 7, thread = Some 1, status = Some ''running'',
                  start_time = Some 100, output_buf = Some (replicate 2001 CHR ''x''),
                  returncode = None, policy = Some ''never'', should_stop = Some False,
                  subscribers = Some [5]\<rparr>"
       and out = "replicate 2001 CHR ''x''" and ?q1.0 = 5 and ls = "[''a'', ''b'']"]
  by (simp add: subscribed_late_eval long_line_eval append_lines_def model_defs)

text \<open>
  A client that subscribes between the two blocks of the loop gets the line twice: the
  line \<open>A\<close> is in the tail it is sent, and the loop then puts it into the new queue.
\<close>

lemma subscribe_between_append_and_publish:
  "pc_of 1 appended_not_published = Some (Broadcast 7 ''A'') \<and>
   fst (ws_subscribe ''job'' 5 appended_not_published) = ''A'' \<and>
   items (queues (run (job_scripts ''never'')
                    [Subscribe ''job'' 5, Monitor 1 (exits 0), Monitor 1 (exits 0)]
                    appended_not_published) 5) = [''A'']"
  by (simp add: appended_not_published_def first_launch_eval model_defs)

text \<open>
  The rest of \<open>ws_logs\<close> sends nothing: the handler ends with \<open>AttributeError\<close>, its
  queue is no subscriber any more, and the lines waiting in the queue stay there.
\<close>

lemma ws_receive_loop_sends_nothing:
  "fst (ws_receive_loop n q w) = AttributeError ''loop'' \<and>
   q \<notin> set (snapshot_subs (processes (snd (ws_receive_loop n q w))) n) \<and>
   effects (snd (ws_receive_loop n q w)) = effects w \<and>
   queues (snd (ws_receive_loop n q w)) = queues w"
  by (auto simp: ws_receive_loop_def ws_unsubscribe_def snapshot_subs_def info_of_def get_or_def
        empty_info_def split: option.splits)

section \<open>What the request handlers write\<close>


lemma info_of_upd: "info_of (procs(n \<mapsto> r)) k = (if k = n then r else info_of procs k)"
  by (simp add: info_of_def)

lemma info_of_absent: "procs k = None \<Longrightarrow> info_of procs k = empty_info"
  by (simp add: info_of_def)

lemma empty_info_fields:
  "process empty_info = None" "start_time empty_info = None"
  "returncode empty_info = None" "status empty_info = None"
  by (simp_all add: empty_info_def)

lemma init_entries_fields:
  "process (info_of (init_entries scripts procs) k) = process (info_of procs k) \<and>
   start_time (info_of (init_entries scripts procs) k) = start_time (info_of procs k) \<and>
   returncode (info_of (init_entries scripts procs) k) = returncode (info_of procs k) \<and>
   status (info_of (init_entries scripts procs) k) =
     (if procs k = None \<and> k \<in> fst ` set scripts then Some ''stopped''
      else status (info_of procs k))"
proof (induction scripts arbitrary: procs)
  case Nil
  show ?case by simp
next
  case (Cons a scripts)
  obtain n meta where a: "a = (n, meta)" by (cases a)
  have st: "fst ` set (a # scripts) = insert n (fst ` set scripts)"
    using a by simp
  show ?case
  proof (cases "procs n")
    case None
    define new where "new = empty_info\<lparr>status := Some ''stopped'',
                     policy := Some (get_or ''on-failure'' (cfg_policy meta)),
                     subscribers := Some [], should_stop := Some False\<rparr>"
    define procs' where "procs' = procs(n \<mapsto> new)"
    have e: "init_entries (a # scripts) procs = init_entries scripts procs'"
      using a None by (simp add: procs'_def new_def)
    have ih: "process (info_of (init_entries scripts procs') k) = process (info_of procs' k) \<and>
      start_time (info_of (init_entries scripts procs') k) = start_time (info_of procs' k) \<and>
      returncode (info_of (init_entries scripts procs') k) = returncode (info_of procs' k) \<and>
      status (info_of (init_entries scripts procs') k) =
        (if procs' k = None \<and> k \<in> fst ` set scripts then Some ''stopped''
         else status (info_of procs' k))"
      by (rule Cons.IH)
    have new: "process new = None" "start_time new = None" "returncode new = None"
      "status new = Some ''stopped''"
      by (simp_all add: new_def empty_info_def)
    have up: "info_of procs' n = new" "k \<noteq> n \<Longrightarrow> info_of procs' k = info_of procs k"
      by (simp_all add: procs'_def info_of_upd)
    have pk: "procs' n = Some new" "k \<noteq> n \<Longrightarrow> procs' k = procs k"
      by (simp_all add: procs'_def)
    have ab: "info_of procs n = empty_info"
      using None by (rule info_of_absent)
    show ?thesis
      unfolding e st using ih None ab
      by (cases "k = n") (simp_all add: up pk new empty_info_fields)
  next
    case (Some r)
    have e: "init_entries (a # scripts) procs = init_entries scripts procs"
      using a Some by simp
    have ih: "process (info_of (init_entries scripts procs) k) = process (info_of procs k) \<and>
      start_time (info_of (init_entries scripts procs) k) = start_time (info_of procs k) \<and>
      returncode (info_of (init_entries scripts procs) k) = returncode (info_of procs k) \<and>
      status (info_of (init_entries scripts procs) k) =
        (if procs k = None \<and> k \<in> fst ` set scripts then Some ''stopped''
         else status (info_of procs k))"
      by (rule Cons.IH)
    show ?thesis
      unfolding e st using ih Some by (cases "k = n") simp_all
  qed
qed

lemma index_fields:
  "get_key process (snd (index scripts w)) k = get_key process w k"
  "get_key start_time (snd (index scripts w)) k = get_key start_time w k"
  "get_key returncode (snd (index scripts w)) k = get_key returncode w k"
  "get_key status (snd (index scripts w)) k =
     (if processes w k = None \<and> k \<in> fst ` set scripts then Some ''stopped''
      else get_key status w k)"
  using init_entries_fields [of scripts "processes w" k]
  by (simp_all add: index_def get_key_def Let_def)

lemma start_fields:
  "get_key process (snd (start_script scripts n t w)) k = get_key process w k"
  "get_key start_time (snd (start_script scripts n t w)) k = get_key start_time w k"
  "get_key returncode (snd (start_script scripts n t w)) k = get_key returncode w k"
  "get_key status (snd (start_script scripts n t w)) k = get_key status w k"
  by (auto simp: start_script_def get_key_def info_of_def update_info_def start_reset_def Let_def
                 empty_info_def
           split: option.splits sum.splits)

lemma stop_fields:
  "get_key process (snd (stop_script n e w)) k = get_key process w k"
  "get_key start_time (snd (stop_script n e w)) k = get_key start_time w k"
  "get_key returncode (snd (stop_script n e w)) k = get_key returncode w k"
  "get_key status (snd (stop_script n e w)) k =
     (if n = k \<and> processes w k \<noteq> None then Some ''stopped'' else get_key status w k)"
  by (auto simp: stop_script_def get_key_def info_of_def update_info_def stop_terminate_def Let_def
           split: option.splits sum.splits)

lemma subscribe_fields:
  "get_key process (snd (ws_subscribe n q w)) k = get_key process w k"
  "get_key start_time (snd (ws_subscribe n q w)) k = get_key start_time w k"
  "get_key returncode (snd (ws_subscribe n q w)) k = get_key returncode w k"
  "get_key status (snd (ws_subscribe n q w)) k = get_key status w k"
  by (auto simp: ws_subscribe_def get_key_def info_of_def Let_def empty_info_def)

lemma unsubscribe_fields:
  "get_key process (ws_unsubscribe n q w) k = get_key process w k"
  "get_key start_time (ws_unsubscribe n q w) k = get_key start_time w k"
  "get_key returncode (ws_unsubscribe n q w) k = get_key returncode w k"
  "get_key status (ws_unsubscribe n q w) k = get_key status w k"
  by (auto simp: ws_unsubscribe_def get_key_def info_of_def split: option.splits)

lemma loop_fields:
  "get_key process (snd (ws_receive_loop n q w)) k = get_key process w k"
  "get_key start_time (snd (ws_receive_loop n q w)) k = get_key start_time w k"
  "get_key returncode (snd (ws_receive_loop n q w)) k = get_key returncode w k"
  "get_key status (snd (ws_receive_loop n q w)) k = get_key status w k"
  by (simp_all add: ws_receive_loop_def unsubscribe_fields)

text \<open>
  C4, as the claim states it, fails: while the first child of \<open>job\<close> runs, \<open>stop_script\<close>
  itself writes the status (line 191); the loop has not taken a step.
\<close>

theorem stop_writes_status_counterexample:
  "get_key status (first_launch ''always'') ''job'' = Some ''running'' \<and>
   get_key status (snd (stop_script ''job'' child_alive (first_launch ''always''))) ''job''
     = Some ''stopped'' \<and>
   threads (snd (stop_script ''job'' child_alive (first_launch ''always'')))
     = threads (first_launch ''always'')"
  by (simp add: first_launch_eval model_defs)

text \<open>
  C4, amended. No request handler (start, stop, the status query, subscribe, the rest
  of \<open>ws_logs\<close> with its unsubscribe, the index page) writes \<open>process\<close>,
  \<open>start_time\<close> or \<open>returncode\<close> of any name: only the steps of a supervisor loop do.
  The status is not written by start, the status query, subscribe and unsubscribe;
  stop sets it to \<open>stopped\<close> for its name when the name has an entry, and
  the index page sets it to \<open>stopped\<close> in the entries it creates for configured names.
\<close>

theorem request_handlers_frame:
  "(\<forall>t e. a \<noteq> Monitor t e) \<longrightarrow>
     get_key process (apply_action scripts a w) k = get_key process w k \<and>
     get_key start_time (apply_action scripts a w) k = get_key start_time w k \<and>
     get_key returncode (apply_action scripts a w) k = get_key returncode w k \<and>
     get_key status (apply_action scripts a w) k =
       (case a of
          Stop n e \<Rightarrow>
            if n = k \<and> processes w k \<noteq> None then Some ''stopped'' else get_key status w k
        | Index \<Rightarrow>
            if processes w k = None \<and> k \<in> fst ` set scripts then Some ''stopped''
            else get_key status w k
        | _ \<Rightarrow> get_key status w k)"
  by (cases a)
     (simp_all add: start_fields stop_fields subscribe_fields unsubscribe_fields loop_fields
        index_fields)

theorem request_handlers_frame_witness:
  "get_key process (apply_action (job_scripts ''always'') (Stop ''job'' child_alive)
      (first_launch ''always'')) ''job'' = Some 7 \<and>
   get_key start_time (apply_action (job_scripts ''always'') (Stop ''job'' child_alive)
      (first_launch ''always'')) ''job'' = Some 100 \<and>
   get_key returncode (apply_action (job_scripts ''always'') (Stop ''job'' child_alive)
      (first_launch ''always'')) ''job'' = None \<and>
   get_key status (apply_action (job_scripts ''always'') (Stop ''job'' child_alive)
      (first_launch ''always'')) ''job'' = Some ''stopped'' \<and>
   get_key status (apply_action (job_scripts ''always'') (Start ''job'' 2)
      (monitor_step 1 (exits 1) (first_exit ''always'' 1))) ''job'' = Some ''error'' \<and>
   get_key returncode (apply_action (job_scripts ''always'') (Start ''job'' 2)
      (monitor_step 1 (exits 1) (first_exit ''always'' 1))) ''job'' = Some 1 \<and>
   pc_of 2 (apply_action (job_scripts ''always'') (Start ''job'' 2)
      (monitor_step 1 (exits 1) (first_exit ''always'' 1))) = Some Top \<and>
   get_key status (apply_action (job_scripts ''always'') Index init_world) ''job''
     = Some ''stopped''"
  using request_handlers_frame
    [where a = "Stop ''job'' child_alive" and scripts = "job_scripts ''always''"
       and w = "first_launch ''always''" and k = "''job''"]
    request_handlers_frame
    [where a = "Start ''job'' 2" and scripts = "job_scripts ''always''"
       and w = "monitor_step 1 (exits 1) (first_exit ''always'' 1)" and k = "''job''"]
    request_handlers_frame
    [where a = Index and scripts = "job_scripts ''always''"
       and w = init_world and k = "''job''"]
  by (simp add: first_launch_eval first_exit_eval model_defs)

section \<open>Unknown names\<close>


text \<open>
  C9, as the claim states it, fails: for the name \<open>ghost\<close>, in no configuration and with
  no entry, \<open>stop_script\<close> answers with a redirect to the index page and
  \<open>ws_logs\<close> creates an entry with the new queue; neither reports that the name is unknown.
\<close>

theorem unknown_name_counterexample:
  "lookup_script [] ''ghost'' = None \<and>
   processes init_world ''ghost'' = None \<and>
   stop_script ''ghost'' child_gone init_world = (Inr (RedirectResponse ''/'' 303), init_world) \<and>
   fst (ws_subscribe ''ghost'' 5 init_world) = [] \<and>
   processes (snd (ws_subscribe ''ghost'' 5 init_world)) ''ghost''
     = Some (empty_info\<lparr>subscribers := Some [5]\<rparr>)"
  by (simp add: model_defs)

text \<open>
  C9, amended. No handler raises for an unknown name. For a name that is not in the
  configuration, start and the status query answer \<open>Script not found\<close> with the code 404
  and change nothing. For a name without an entry in the registry, stop answers with a
  redirect to the index page (code 303) and changes nothing, subscribe creates an entry
  that holds only the new queue and sends no tail, and unsubscribe does nothing.
\<close>

theorem unknown_name:
  "(lookup_script scripts n = None \<longrightarrow>
      start_script scripts n t w = (Inr (HTMLResponse ''Script not found'' 404), w) \<and>
      script_detail scripts n now w = HTMLResponse ''Script not found'' 404) \<and>
   (processes w' n' = None \<longrightarrow>
      stop_script n' e w' = (Inr (RedirectResponse ''/'' 303), w') \<and>
      fst (ws_subscribe n' q w') = [] \<and>
      processes (snd (ws_subscribe n' q w'))
        = (processes w')(n' \<mapsto> empty_info\<lparr>subscribers := Some [q]\<rparr>) \<and>
      effects (snd (ws_subscribe n' q w')) = effects w' \<and>
      ws_unsubscribe n' q w' = w')"
  by (simp add: start_script_def script_detail_def stop_script_def ws_subscribe_def
      ws_unsubscribe_def info_of_def empty_info_def get_or_def last_chars_def Let_def)

theorem unknown_name_witness:
  "lookup_script (job_scripts ''always'') ''ghost'' = None \<and>
   processes (first_launch ''always'') ''ghost'' = None \<and>
   start_script (job_scripts ''always'') ''ghost'' 2 (first_launch ''always'')
     = (Inr (HTMLResponse ''Script not found'' 404), first_launch ''always'') \<and>
   script_detail (job_scripts ''always'') ''ghost'' 200 (first_launch ''always'')
     = HTMLResponse ''Script not found'' 404 \<and>
   stop_script ''ghost'' child_gone (first_launch ''always'')
     = (Inr (RedirectResponse ''/'' 303), first_launch ''always'') \<and>
   processes (snd (ws_subscribe ''ghost'' 5 (first_launch ''always''))) ''ghost''
     = Some (empty_info\<lparr>subscribers := Some [5]\<rparr>) \<and>
   ws_unsubscribe ''ghost'' 5 (first_launch ''always'') = first_launch ''always''"
  using unknown_name
    [where scripts = "job_scripts ''always''" and n = "''ghost''" and t = 2
       and w = "first_launch ''always''" and now = 200
       and w' = "first_launch ''always''" and n' = "''ghost''" and e = child_gone and q = 5]
  by (simp add: first_launch_eval job_scripts_def lookup_script_def)

section \<open>Starting a script\<close>


lemma start_launches:
  assumes "lookup_script scripts n = Some meta" and "get_key status w n \<noteq> Some ''running''"
    and "path meta = Some p"
  shows "start_script scripts n t w =
     (Inr (RedirectResponse (''/script/'' @ n) 303),
      w\<lparr>processes := (processes w)(n \<mapsto>
           (info_of (processes w) n)
             \<lparr>should_stop := Some False, output_buf := Some [],
              policy := Some (get_or ''on-failure'' (cfg_policy meta)),
              subscribers := Some (get_or [] (subscribers (info_of (processes w) n))),
              thread := Some t\<rparr>),
        threads := (threads w)(t \<mapsto>
           \<lparr>m_name = n, m_cmd = [''python3'', p] @ get_or [] (args meta),
            m_policy = get_or ''on-failure'' (cfg_policy meta), m_pc = Top\<rparr>)\<rparr>)"
  using assms
  by (simp add: start_script_def start_reset_def update_info_def get_key_def Let_def)

lemma start_others:
  "k \<noteq> n \<Longrightarrow> processes (snd (start_script scripts n t w)) k = processes w k"
  "queues (snd (start_script scripts n t w)) = queues w"
  "effects (snd (start_script scripts n t w)) = effects w"
  by (auto simp: start_script_def start_reset_def update_info_def Let_def
           split: option.splits sum.splits)


lemma started_loop_launches:
  assumes "threads w t = Some m" and "m_pc m = Top" and "processes w (m_name m) = Some r"
    and "should_stop r = Some False" and "env_popen e2 = Inr h"
  shows "processes (monitor_run t [e1, e2] w) = processes w"
    and "get_key status (monitor_run t [e1, e2, e3] w) (m_name m) = Some ''running''"
proof -
  let ?w1 = "w\<lparr>threads := (threads w)(t \<mapsto> m\<lparr>m_pc := Check1 False\<rparr>)\<rparr>"
  let ?w2 = "w\<lparr>effects := effects w @ [Popen (m_cmd m) h],
               threads := (threads w)(t \<mapsto> m\<lparr>m_pc := Launched h (env_time e2)\<rparr>)\<rparr>"
  have s1: "monitor_step t e1 w = ?w1"
    using assms step_top [of w t m r e1] by (simp add: get_or_def)
  have "monitor_step t e2 ?w1 = ?w2"
    using assms(5) step_popen_ok [of ?w1 t "m\<lparr>m_pc := Check1 False\<rparr>" e2 h] by simp
  then have r2: "monitor_run t [e1, e2] w = ?w2"
    using s1 by simp
  have "monitor_step t e3 ?w2 =
     ?w2\<lparr>processes := (processes ?w2)(m_name m \<mapsto>
          r\<lparr>process := Some h, status := Some ''running'', start_time := Some (env_time e2),
            output_buf := Some (get_or [] (output_buf r))\<rparr>),
       threads := (threads ?w2)(t \<mapsto> m\<lparr>m_pc := Launched h (env_time e2), m_pc := Reading h\<rparr>)\<rparr>"
    using assms(3) step_launched [of ?w2 t "m\<lparr>m_pc := Launched h (env_time e2)\<rparr>" h "env_time e2" r e3]
    by simp
  then have r3: "get_key status (monitor_step t e3 ?w2) (m_name m) = Some ''running''"
    by (simp add: get_key_def info_of_def)
  show "processes (monitor_run t [e1, e2] w) = processes w"
    by (simp only: r2) simp
  have "monitor_run t [e1, e2, e3] w = monitor_step t e3 (monitor_run t [e1, e2] w)"
    by simp
  then show "get_key status (monitor_run t [e1, e2, e3] w) (m_name m) = Some ''running''"
    using r3 by (simp only: r2)
qed

text \<open>
  C10. \<open>start_script\<close> never writes the status, nor the process handle, the start time
  or the exit code, of any name; it touches no other entry, no queue and has no effect
  on the outside. When it launches a loop, the entry of the name is the former one with
  the stop flag unset, the output emptied, the policy of the configuration, the same
  subscribers and the new thread, and the new thread waits at the top of its loop. A
  status query right after it still shows the former status. The status is still the
  former one after the first two steps of the new thread, and becomes \<open>running\<close> with
  its third step, when \<open>Popen\<close> has succeeded.
\<close>

theorem start_leaves_status:
  "get_key status (snd (start_script scripts n t w)) k = get_key status w k \<and>
   get_key process (snd (start_script scripts n t w)) k = get_key process w k \<and>
   get_key start_time (snd (start_script scripts n t w)) k = get_key start_time w k \<and>
   get_key returncode (snd (start_script scripts n t w)) k = get_key returncode w k \<and>
   (k \<noteq> n \<longrightarrow> processes (snd (start_script scripts n t w)) k = processes w k) \<and>
   queues (snd (start_script scripts n t w)) = queues w \<and>
   effects (snd (start_script scripts n t w)) = effects w \<and>
   (lookup_script scripts n = Some meta \<and> get_key status w n \<noteq> Some ''running'' \<and>
    path meta = Some p \<longrightarrow>
      processes (snd (start_script scripts n t w)) n =
        Some ((info_of (processes w) n)
               \<lparr>should_stop := Some False, output_buf := Some [],
                policy := Some (get_or ''on-failure'' (cfg_policy meta)),
                subscribers := Some (get_or [] (subscribers (info_of (processes w) n))),
                thread := Some t\<rparr>) \<and>
      threads (snd (start_script scripts n t w)) =
        (threads w)(t \<mapsto>
           \<lparr>m_name = n, m_cmd = [''python3'', p] @ get_or [] (args meta),
            m_policy = get_or ''on-failure'' (cfg_policy meta), m_pc = Top\<rparr>) \<and>
      script_detail scripts n now (snd (start_script scripts n t w)) =
        DetailPage n meta
          \<lparr>rt_status = get_or ''stopped'' (get_key status w n),
           rt_start_time = get_key start_time w n,
           rt_running_time =
             (case get_key start_time w n of
                None \<Rightarrow> None
              | Some ts \<Rightarrow> if ts \<noteq> 0 then Some (now - ts) else None),
           rt_returncode = get_key returncode w n,
           rt_output = []\<rparr> \<and>
      (env_popen e2 = Inr h \<longrightarrow>
         get_key status (monitor_run t [e1, e2] (snd (start_script scripts n t w))) n
           = get_key status w n \<and>
         get_key status (monitor_run t [e1, e2, e3] (snd (start_script scripts n t w))) n
           = Some ''running''))"
proof (intro conjI impI)
  show "get_key status (snd (start_script scripts n t w)) k = get_key status w k"
    and "get_key process (snd (start_script scripts n t w)) k = get_key process w k"
    and "get_key start_time (snd (start_script scripts n t w)) k = get_key start_time w k"
    and "get_key returncode (snd (start_script scripts n t w)) k = get_key returncode w k"
    by (rule start_fields)+
  show "queues (snd (start_script scripts n t w)) = queues w"
    and "effects (snd (start_script scripts n t w)) = effects w"
    by (rule start_others)+
next
  assume "k \<noteq> n"
  then show "processes (snd (start_script scripts n t w)) k = processes w k"
    by (rule start_others)
next
  assume h: "lookup_script scripts n = Some meta \<and> get_key status w n \<noteq> Some ''running'' \<and>
    path meta = Some p"
  let ?r = "(info_of (processes w) n)
               \<lparr>should_stop := Some False, output_buf := Some [],
                policy := Some (get_or ''on-failure'' (cfg_policy meta)),
                subscribers := Some (get_or [] (subscribers (info_of (processes w) n))),
                thread := Some t\<rparr>"
  let ?m = "\<lparr>m_name = n, m_cmd = [''python3'', p] @ get_or [] (args meta),
            m_policy = get_or ''on-failure'' (cfg_policy meta), m_pc = Top\<rparr>"
  let ?w = "w\<lparr>processes := (processes w)(n \<mapsto> ?r), threads := (threads w)(t \<mapsto> ?m)\<rparr>"
  have st: "snd (start_script scripts n t w) = ?w"
    using h start_launches [of scripts n meta w p t] by simp
  show "processes (snd (start_script scripts n t w)) n = Some ?r"
    by (simp add: st)
  show "threads (snd (start_script scripts n t w)) = (threads w)(t \<mapsto> ?m)"
    by (simp add: st)
  show "script_detail scripts n now (snd (start_script scripts n t w)) =
        DetailPage n meta
          \<lparr>rt_status = get_or ''stopped'' (get_key status w n),
           rt_start_time = get_key start_time w n,
           rt_running_time =
             (case get_key start_time w n of
                None \<Rightarrow> None
              | Some ts \<Rightarrow> if ts \<noteq> 0 then Some (now - ts) else None),
           rt_returncode = get_key returncode w n,
           rt_output = []\<rparr>"
    using h by (simp add: st script_detail_def info_of_upd get_key_def last_chars_def get_or_def)
  {
    assume p: "env_popen e2 = Inr h"
    have a: "processes (monitor_run t [e1, e2] ?w) = processes ?w"
      by (rule started_loop_launches(1) [where m = ?m and r = ?r and h = h]) (simp_all add: p)
    have b: "get_key status (monitor_run t [e1, e2, e3] ?w) (m_name ?m) = Some ''running''"
      by (rule started_loop_launches(2) [where m = ?m and r = ?r and h = h]) (simp_all add: p)
    have "get_key status (monitor_run t [e1, e2] ?w) n = get_key status ?w n"
      using a by (simp only: get_key_def)
    also have "\<dots> = get_key status w n"
      using start_fields(4) [of scripts n t w n] by (simp only: st)
    finally show "get_key status (monitor_run t [e1, e2] (snd (start_script scripts n t w))) n
           = get_key status w n"
      by (simp only: st)
    show "get_key status (monitor_run t [e1, e2, e3] (snd (start_script scripts n t w))) n
           = Some ''running''"
      using b by (simp only: st) simp
  }
qed


theorem start_leaves_status_witness:
  "lookup_script (job_scripts ''never'') ''job''
     = Some \<lparr>path = Some ''job.py'', args = Some [], cfg_policy = Some ''never''\<rparr> \<and>
   get_key status (monitor_step 1 (exits 1) (first_exit ''never'' 1)) ''job'' = Some ''error'' \<and>
   get_key status
     (snd (start_script (job_scripts ''never'') ''job'' 2
            (monitor_step 1 (exits 1) (first_exit ''never'' 1)))) ''job'' = Some ''error'' \<and>
   get_key should_stop
     (snd (start_script (job_scripts ''never'') ''job'' 2
            (monitor_step 1 (exits 1) (first_exit ''never'' 1)))) ''job'' = Some False \<and>
   pc_of 2
     (snd (start_script (job_scripts ''never'') ''job'' 2
            (monitor_step 1 (exits 1) (first_exit ''never'' 1)))) = Some Top \<and>
   get_key status
     (monitor_run 2 [exits 0, launch_ok 8]
        (snd (start_script (job_scripts ''never'') ''job'' 2
               (monitor_step 1 (exits 1) (first_exit ''never'' 1))))) ''job'' = Some ''error'' \<and>
   get_key status
     (monitor_run 2 [exits 0, launch_ok 8, exits 0]
        (snd (start_script (job_scripts ''never'') ''job'' 2
               (monitor_step 1 (exits 1) (first_exit ''never'' 1))))) ''job'' = Some ''running''"
  using start_leaves_status
    [where scripts = "job_scripts ''never''" and n = "''job''" and t = 2 and k = "''job''"
       and w = "monitor_step 1 (exits 1) (first_exit ''never'' 1)"
       and meta = "\<lparr>path = Some ''job.py'', args = Some [], cfg_policy = Some ''never''\<rparr>"
       and p = "''job.py''" and now = 200
       and ?e1.0 = "exits 0" and ?e2.0 = "launch_ok 8" and ?e3.0 = "exits 0" and h = 8]
  by (simp add: first_exit_eval model_defs)

end
